theory Spec2Isabelle
  imports Main "HOL-Library.Word"
begin

unbundle bit_operations_syntax

section \<open>Basic types\<close>

type_synonym byte = "8 word"
type_synonym bytes = "byte list"

text \<open>Go's \<open>int32\<close>: a 32-bit word, read as two's complement by \<open>sint\<close>.\<close>

type_synonym int32 = "32 word"

text \<open>
  The error values of the package and of the Go library that the code tells apart.
  \<open>OpError\<close> stands for a value of dynamic type \<open>*net.OpError\<close>, \<open>RPCError\<close> for the
  package's \<open>*Error\<close>, \<open>ContextErr\<close> for what \<open>context.Context.Err\<close> returns, and
  \<open>OtherError\<close> for every other error value.
\<close>

datatype error =
    TransportClosedError
  | PacketPayloadTooLargeError
  | EOF
  | OpError string
  | RPCError int string bytes
  | ContextErr string
  | OtherError string

text \<open>A Go call either returns or panics.\<close>

datatype 'a outcome = Returns 'a | Panics string

section \<open>The byte stream used by the transport\<close>

text \<open>
  Modelled from the spec: \<open>byte_stream.ByteStream\<close> belongs to the package
  \<open>github.com/let-z-go/toolkit/byte_stream\<close>, whose source is not part of this
  repository. It is an append-only byte sink over one backing array: \<open>bsData\<close> is what
  \<open>GetData\<close> returns (the bytes written and not yet skipped) and \<open>bsBuffer\<close> is what
  \<open>GetBuffer\<close> returns (the free room after the data, stale content included).
\<close>

record ByteStream =
  bsData :: bytes
  bsBuffer :: bytes

definition emptyByteStream :: ByteStream where
  "emptyByteStream = \<lparr>bsData = [], bsBuffer = []\<rparr>"

definition GetData :: "ByteStream \<Rightarrow> bytes" where
  "GetData s = bsData s"

definition GetDataSize :: "ByteStream \<Rightarrow> nat" where
  "GetDataSize s = length (bsData s)"

definition GetBuffer :: "ByteStream \<Rightarrow> bytes" where
  "GetBuffer s = bsBuffer s"

definition GetBufferSize :: "ByteStream \<Rightarrow> nat" where
  "GetBufferSize s = length (bsBuffer s)"

text \<open>\<open>ReserveBuffer n\<close> makes sure that at least \<open>n\<close> bytes of buffer are free.\<close>

definition ReserveBuffer :: "int \<Rightarrow> ByteStream \<Rightarrow> ByteStream" where
  "ReserveBuffer n s =
     (if int (length (bsBuffer s)) < n
      then s\<lparr>bsBuffer := bsBuffer s @ replicate (nat n - length (bsBuffer s)) 0\<rparr>
      else s)"

text \<open>\<open>CommitBuffer n\<close> turns the first \<open>n\<close> bytes of the buffer into data.\<close>

definition CommitBuffer :: "nat \<Rightarrow> ByteStream \<Rightarrow> ByteStream" where
  "CommitBuffer n s =
     s\<lparr>bsData := bsData s @ take n (bsBuffer s), bsBuffer := drop n (bsBuffer s)\<rparr>"

text \<open>\<open>Skip n\<close> consumes the first \<open>n\<close> bytes of the data.\<close>

definition Skip :: "nat \<Rightarrow> ByteStream \<Rightarrow> ByteStream" where
  "Skip n s = s\<lparr>bsData := drop n (bsData s)\<rparr>"

text \<open>
  \<open>Unwrite n\<close> gives the last \<open>n\<close> bytes of the data back to the buffer. A count outside
  \<open>0 .. GetDataSize\<close> is outside the library's contract; the model clamps it.
\<close>

definition Unwrite :: "int \<Rightarrow> ByteStream \<Rightarrow> ByteStream" where
  "Unwrite n s =
     (let k = length (bsData s) - nat n
      in s\<lparr>bsData := take k (bsData s), bsBuffer := drop k (bsData s) @ bsBuffer s\<rparr>)"

text \<open>\<open>Write bs\<close> appends \<open>bs\<close> to the data.\<close>

definition Write :: "bytes \<Rightarrow> ByteStream \<Rightarrow> ByteStream" where
  "Write bs s =
     (let s1 = ReserveBuffer (int (length bs)) s
      in CommitBuffer (length bs) (s1\<lparr>bsBuffer := bs @ drop (length bs) (bsBuffer s1)\<rparr>))"

text \<open>
  \<open>WriteDirectly n callback\<close> reserves \<open>n\<close> bytes, lets the callback fill them in place and
  commits them unless the callback fails.
\<close>

definition WriteDirectly ::
  "nat \<Rightarrow> (bytes \<Rightarrow> bytes \<times> error option) \<Rightarrow> ByteStream \<Rightarrow> error option \<times> ByteStream" where
  "WriteDirectly n callback s =
     (let s1 = ReserveBuffer (int n) s;
          (filled, e) = callback (take n (bsBuffer s1));
          s2 = s1\<lparr>bsBuffer := take n filled @ drop n (bsBuffer s1)\<rparr>
      in if e \<noteq> None then (e, s2) else (None, CommitBuffer n s2))"

text \<open>\<open>GC\<close> releases the unused room; the data stays.\<close>

definition GC :: "ByteStream \<Rightarrow> ByteStream" where
  "GC s = s\<lparr>bsBuffer := []\<rparr>"

section \<open>Transport policy\<close>

text \<open>\<open>validateOnce\<close> is the \<open>sync.Once\<close> of the source: \<open>True\<close> once it has run.\<close>

record TransportPolicy =
  InitialReadBufferSize :: int32
  MaxPacketPayloadSize :: int32
  validateOnce :: bool

definition defaultInitialReadBufferSizeOfTransport :: int32 where
  "defaultInitialReadBufferSizeOfTransport = push_bit 12 1"

definition minInitialReadBufferSizeOfTransport :: int32 where
  "minInitialReadBufferSizeOfTransport = push_bit 8 1"

definition maxInitialReadBufferSizeOfTransport :: int32 where
  "maxInitialReadBufferSizeOfTransport = push_bit 16 1"

definition minMaxPacketPayloadSize :: int32 where
  "minMaxPacketPayloadSize = push_bit 16 1"

definition packetHeaderSize :: nat where
  "packetHeaderSize = 4"

definition Validate :: "TransportPolicy \<Rightarrow> TransportPolicy" where
  "Validate self =
     (if validateOnce self then self
      else
        (let s1 =
               (if InitialReadBufferSize self = 0
                then self\<lparr>InitialReadBufferSize := defaultInitialReadBufferSizeOfTransport\<rparr>
                else if sint (InitialReadBufferSize self) < sint minInitialReadBufferSizeOfTransport
                then self\<lparr>InitialReadBufferSize := minInitialReadBufferSizeOfTransport\<rparr>
                else if sint (InitialReadBufferSize self) > sint maxInitialReadBufferSizeOfTransport
                then self\<lparr>InitialReadBufferSize := maxInitialReadBufferSizeOfTransport\<rparr>
                else self);
             s2 =
               (if sint (MaxPacketPayloadSize s1) < sint minMaxPacketPayloadSize
                then s1\<lparr>MaxPacketPayloadSize := minMaxPacketPayloadSize\<rparr>
                else s1)
         in s2\<lparr>validateOnce := True\<rparr>))"

section \<open>Contexts and connections\<close>

text \<open>
  A \<open>context.Context\<close> as the code uses it: \<open>ctxVars\<close> is the address of the
  \<open>*ContextVars\<close> bound under the key \<open>contextVars{}\<close> (if any), \<open>ctxErr\<close> is what
  \<open>Err()\<close> returns (nil until the context is done).
\<close>

record Context =
  ctxVars :: "nat option"
  ctxErr :: "error option"

text \<open>
  \<open>makeDeadline\<close> is defined in a file of the package that is not under \<open>src/\<close>; the
  transport takes it as a parameter. It returns a time and an error.
\<close>

type_synonym deadline_maker = "Context \<Rightarrow> int \<Rightarrow> int \<times> error option"

text \<open>
  A \<open>net.Conn\<close>, seen from the transport. \<open>connInput\<close> lists what the next calls of
  \<open>Read\<close> find: bytes that have arrived, and the error that ends them (a timeout, a
  reset); an empty list is a connection closed by the peer. \<open>connWriteResults\<close> lists
  what the next calls of \<open>Write\<close> return; a call beyond the list writes everything.
\<close>

datatype conn_kind = TCPConn | WebSocketConn | OtherConn

datatype read_event = ReadResult bytes "error option"

record connection =
  connKind :: conn_kind
  connInput :: "read_event list"
  connWriteResults :: "(nat \<times> error option) list"
  connOutput :: bytes
  connSetDeadlineResult :: "error option"
  connReadDeadline :: "int option"
  connWriteDeadline :: "int option"
  connCloseResult :: "error option"
  connLinger :: "int option"
  connClosed :: bool

text \<open>
  \<open>Read(buffer)\<close> fills a prefix of the buffer and returns its length and an error. Bytes
  that do not fit stay for the next call.
\<close>

definition conn_Read :: "connection \<Rightarrow> bytes \<Rightarrow> nat \<times> error option \<times> bytes \<times> connection" where
  "conn_Read c buffer =
     (case connInput c of
        [] \<Rightarrow> (0, Some EOF, buffer, c)
      | ReadResult bs e # rest \<Rightarrow>
          (if length bs \<le> length buffer
           then (length bs, e, bs @ drop (length bs) buffer, c\<lparr>connInput := rest\<rparr>)
           else (length buffer, None, take (length buffer) bs,
                 c\<lparr>connInput := ReadResult (drop (length buffer) bs) e # rest\<rparr>)))"

definition conn_Write :: "connection \<Rightarrow> bytes \<Rightarrow> nat \<times> error option \<times> connection" where
  "conn_Write c bs =
     (case connWriteResults c of
        [] \<Rightarrow> (length bs, None, c\<lparr>connOutput := connOutput c @ bs\<rparr>)
      | (n, e) # rest \<Rightarrow>
          (min n (length bs), e,
           c\<lparr>connOutput := connOutput c @ take n bs, connWriteResults := rest\<rparr>))"

definition conn_SetReadDeadline :: "int \<Rightarrow> connection \<Rightarrow> error option \<times> connection" where
  "conn_SetReadDeadline t c =
     (case connSetDeadlineResult c of
        Some e \<Rightarrow> (Some e, c)
      | None \<Rightarrow> (None, c\<lparr>connReadDeadline := Some t\<rparr>))"

definition conn_SetWriteDeadline :: "int \<Rightarrow> connection \<Rightarrow> error option \<times> connection" where
  "conn_SetWriteDeadline t c =
     (case connSetDeadlineResult c of
        Some e \<Rightarrow> (Some e, c)
      | None \<Rightarrow> (None, c\<lparr>connWriteDeadline := Some t\<rparr>))"

definition conn_Close :: "connection \<Rightarrow> error option \<times> connection" where
  "conn_Close c = (connCloseResult c, c\<lparr>connClosed := True\<rparr>)"

section \<open>Big-endian 32-bit integers\<close>

text \<open>
  \<open>binary.BigEndian.Uint32\<close> and \<open>PutUint32\<close> of the Go library; both panic on a slice
  shorter than four bytes.
\<close>

definition BigEndian_Uint32 :: "bytes \<Rightarrow> 32 word outcome" where
  "BigEndian_Uint32 b =
     (case b of
        b0 # b1 # b2 # b3 # _ \<Rightarrow>
          Returns (ucast b3 OR push_bit 8 (ucast b2) OR push_bit 16 (ucast b1)
                   OR push_bit 24 (ucast b0))
      | _ \<Rightarrow> Panics ''index out of range'')"

definition BigEndian_PutUint32 :: "bytes \<Rightarrow> 32 word \<Rightarrow> bytes outcome" where
  "BigEndian_PutUint32 b v =
     (if length b < 4 then Panics ''index out of range''
      else Returns ([ucast (drop_bit 24 v), ucast (drop_bit 16 v), ucast (drop_bit 8 v), ucast v]
                    @ drop 4 b))"

section \<open>Transport\<close>

text \<open>
  Go's \<open>int\<close> is taken to be 64 bits wide, so that lengths and a \<open>uint32\<close> converted to
  \<open>int\<close> do not overflow; such values are \<open>nat\<close> or \<open>int\<close> here. A nil \<open>policy\<close> or
  \<open>connection\<close> is \<open>None\<close>, and using it panics.
\<close>

record transport =
  policy :: "TransportPolicy option"
  connection :: "connection option"
  inputByteStream :: ByteStream
  outputByteStream :: ByteStream
  openness :: int

definition newTransport :: transport where
  "newTransport = \<lparr>policy = None, connection = None, inputByteStream = emptyByteStream,
                    outputByteStream = emptyByteStream, openness = 0\<rparr>"

definition initialize :: "TransportPolicy \<Rightarrow> connection \<Rightarrow> transport \<Rightarrow> transport outcome" where
  "initialize policy0 connection0 self =
     (if openness self \<noteq> 0 then Panics ''pbrpc: transport already initialized''
      else
        (let policy1 = Validate policy0
         in Returns (self\<lparr>policy := Some policy1,
                          connection := Some connection0,
                          inputByteStream :=
                            ReserveBuffer (sint (InitialReadBufferSize policy1)) (inputByteStream self),
                          openness := 1\<rparr>)))"

definition isClosed :: "transport \<Rightarrow> bool" where
  "isClosed self = (openness self \<noteq> 1)"

definition close :: "bool \<Rightarrow> transport \<Rightarrow> (error option \<times> transport) outcome" where
  "close force self =
     (if isClosed self then Returns (Some TransportClosedError, self)
      else
        (case connection self of
           None \<Rightarrow> Panics ''nil pointer dereference''
         | Some c \<Rightarrow>
             (let c1 = (if force \<and> connKind c = TCPConn then c\<lparr>connLinger := Some 0\<rparr> else c);
                  (e, c2) = conn_Close c1
              in Returns (e, self\<lparr>policy := None,
                                  connection := None,
                                  inputByteStream := GC (inputByteStream self),
                                  outputByteStream := GC (outputByteStream self),
                                  openness := - 1\<rparr>))))"

text \<open>
  The two read loops of \<open>doPeek\<close> (lines 253-269 and 296-312) are the same loop with a
  different size to reach. \<open>Inl e\<close> is the \<open>return nil, e\<close> of a read of no bytes,
  \<open>Inr ()\<close> the \<open>break\<close>.
\<close>

function readLoop ::
  "nat \<Rightarrow> connection \<Rightarrow> ByteStream \<Rightarrow> (error option + unit) \<times> connection \<times> ByteStream" where
  "readLoop target c s =
     (case conn_Read c (GetBuffer s) of
        (dataSize, e, buffer, c1) \<Rightarrow>
          (let s1 = s\<lparr>bsBuffer := buffer\<rparr>
           in if dataSize = 0 then (Inl e, c1, s1)
              else
                (let s2 = CommitBuffer dataSize s1
                 in if GetDataSize s2 \<ge> target
                    then (Inr (), c1, if GetBufferSize s2 = 0 then ReserveBuffer 1 s2 else s2)
                    else readLoop target c1 s2)))"
  by pat_completeness auto
termination
  apply (relation "measure (\<lambda>(target, c, s). target - GetDataSize s)")
   apply simp
  apply (auto simp: GetDataSize_def CommitBuffer_def GetBuffer_def conn_Read_def
      simp flip: length_greater_0_conv
      split: list.splits read_event.splits if_splits)
  done

text \<open>
  Lines 241-249 and 283-291 of \<open>doPeek\<close>, the same in both places: compute the deadline
  and set it on the connection. A returned \<open>Some e\<close> is an early \<open>return nil, e\<close>.
\<close>

definition armReadDeadline ::
  "deadline_maker \<Rightarrow> Context \<Rightarrow> int \<Rightarrow> transport \<Rightarrow> (error option \<times> transport) outcome" where
  "armReadDeadline makeDeadline ctx timeout self =
     (case makeDeadline ctx timeout of
        (deadline, e) \<Rightarrow>
          if e \<noteq> None then Returns (e, self)
          else
            (case connection self of
               None \<Rightarrow> Panics ''nil pointer dereference''
             | Some c \<Rightarrow>
                 (case conn_SetReadDeadline deadline c of
                    (e1, c1) \<Rightarrow> Returns (e1, self\<lparr>connection := Some c1\<rparr>))))"

text \<open>The read loop on the transport's own connection and input stream.\<close>

definition readInto :: "nat \<Rightarrow> transport \<Rightarrow> ((error option + unit) \<times> transport) outcome" where
  "readInto target self =
     (case connection self of
        None \<Rightarrow> Panics ''nil pointer dereference''
      | Some c \<Rightarrow>
          (case readLoop target c (inputByteStream self) of
             (r, c1, s) \<Rightarrow> Returns (r, self\<lparr>connection := Some c1, inputByteStream := s\<rparr>)))"

text \<open>
  Lines 240-270 of \<open>doPeek\<close>: wait for the packet header. \<open>Inl\<close> is an early return of
  \<open>doPeek\<close>, \<open>Inr deadlineIsSet\<close> goes on.
\<close>

definition doPeekHeader ::
  "deadline_maker \<Rightarrow> Context \<Rightarrow> int \<Rightarrow> transport
    \<Rightarrow> (((bytes \<times> error option) + bool) \<times> transport) outcome" where
  "doPeekHeader makeDeadline ctx timeout self =
     (if GetDataSize (inputByteStream self) < packetHeaderSize
      then
        (case armReadDeadline makeDeadline ctx timeout self of
           Panics m \<Rightarrow> Panics m
         | Returns (Some e, self1) \<Rightarrow> Returns (Inl ([], Some e), self1)
         | Returns (None, self1) \<Rightarrow>
             (case readInto packetHeaderSize self1 of
                Panics m \<Rightarrow> Panics m
              | Returns (Inl e, self2) \<Rightarrow> Returns (Inl ([], e), self2)
              | Returns (Inr _, self2) \<Rightarrow> Returns (Inr True, self2)))
      else Returns (Inr False, self))"

text \<open>Lines 272-316 of \<open>doPeek\<close>: decode the header and wait for the whole packet.\<close>

definition doPeekBody ::
  "deadline_maker \<Rightarrow> Context \<Rightarrow> int \<Rightarrow> bool \<Rightarrow> transport
    \<Rightarrow> ((bytes \<times> error option) \<times> transport) outcome" where
  "doPeekBody makeDeadline ctx timeout deadlineIsSet self =
     (case BigEndian_Uint32 (take packetHeaderSize (GetData (inputByteStream self))) of
        Panics m \<Rightarrow> Panics m
      | Returns w \<Rightarrow>
          (let packetPayloadSize = uint w
           in case policy self of
                None \<Rightarrow> Panics ''nil pointer dereference''
              | Some p \<Rightarrow>
                  if packetPayloadSize > sint (MaxPacketPayloadSize p)
                  then Returns (([], Some PacketPayloadTooLargeError), self)
                  else
                    (let packetSize = int packetHeaderSize + packetPayloadSize;
                         bufferSize = packetSize - int (GetDataSize (inputByteStream self))
                     in if bufferSize \<ge> 1
                        then
                          (case (if deadlineIsSet then Returns (None, self)
                                 else armReadDeadline makeDeadline ctx timeout self) of
                             Panics m \<Rightarrow> Panics m
                           | Returns (Some e, self1) \<Rightarrow> Returns (([], Some e), self1)
                           | Returns (None, self1) \<Rightarrow>
                               (case readInto (nat packetSize)
                                       (self1\<lparr>inputByteStream :=
                                                ReserveBuffer bufferSize (inputByteStream self1)\<rparr>) of
                                  Panics m \<Rightarrow> Panics m
                                | Returns (Inl e, self2) \<Rightarrow> Returns (([], e), self2)
                                | Returns (Inr _, self2) \<Rightarrow>
                                    Returns ((take (nat packetSize) (GetData (inputByteStream self2)),
                                              None), self2)))
                        else Returns ((take (nat packetSize) (GetData (inputByteStream self)), None),
                                      self))))"

definition doPeek ::
  "deadline_maker \<Rightarrow> Context \<Rightarrow> int \<Rightarrow> transport
    \<Rightarrow> ((bytes \<times> error option) \<times> transport) outcome" where
  "doPeek makeDeadline ctx timeout self =
     (if isClosed self then Returns (([], Some TransportClosedError), self)
      else
        (case doPeekHeader makeDeadline ctx timeout self of
           Panics m \<Rightarrow> Panics m
         | Returns (Inl r, self1) \<Rightarrow> Returns (r, self1)
         | Returns (Inr deadlineIsSet, self1) \<Rightarrow>
             doPeekBody makeDeadline ctx timeout deadlineIsSet self1))"

text \<open>\<open>packet[packetHeaderSize:]\<close>: panics on a slice shorter than the header.\<close>

definition packetPayloadOf :: "bytes \<Rightarrow> bytes outcome" where
  "packetPayloadOf packet =
     (if length packet < packetHeaderSize then Panics ''slice bounds out of range''
      else Returns (drop packetHeaderSize packet))"

definition peek ::
  "deadline_maker \<Rightarrow> Context \<Rightarrow> int \<Rightarrow> transport
    \<Rightarrow> ((bytes \<times> error option) \<times> transport) outcome" where
  "peek makeDeadline ctx timeout self =
     (case doPeek makeDeadline ctx timeout self of
        Panics m \<Rightarrow> Panics m
      | Returns ((packet, e), self1) \<Rightarrow>
          if e \<noteq> None then Returns (([], e), self1)
          else
            (case packetPayloadOf packet of
               Panics m \<Rightarrow> Panics m
             | Returns packetPayload \<Rightarrow> Returns ((packetPayload, None), self1)))"

definition skip :: "bytes \<Rightarrow> transport \<Rightarrow> error option \<times> transport" where
  "skip packetPayload self =
     (if isClosed self then (Some TransportClosedError, self)
      else
        (let packetSize = packetHeaderSize + length packetPayload
         in (None, self\<lparr>inputByteStream := Skip packetSize (inputByteStream self)\<rparr>)))"

definition tryPeek :: "nat \<Rightarrow> transport \<Rightarrow> (bytes \<times> bool) outcome" where
  "tryPeek dataOffset self =
     (if int (GetDataSize (inputByteStream self)) - int dataOffset < int packetHeaderSize
      then Returns ([], False)
      else
        (case BigEndian_Uint32
                (take packetHeaderSize (drop dataOffset (GetData (inputByteStream self)))) of
           Panics m \<Rightarrow> Panics m
         | Returns w \<Rightarrow>
             (let packetPayloadSize = uint w
              in case policy self of
                   None \<Rightarrow> Panics ''nil pointer dereference''
                 | Some p \<Rightarrow>
                     if packetPayloadSize > sint (MaxPacketPayloadSize p) then Returns ([], False)
                     else
                       (let packetSize = int packetHeaderSize + packetPayloadSize
                        in if int (GetDataSize (inputByteStream self)) - int dataOffset < packetSize
                           then Returns ([], False)
                           else Returns (take (nat packetSize)
                                           (drop dataOffset (GetData (inputByteStream self))),
                                         True)))))"

text \<open>The loop of \<open>peekInBatch\<close> (lines 122-131).\<close>

function peekInBatchLoop :: "transport \<Rightarrow> nat \<Rightarrow> bytes list \<Rightarrow> bytes list outcome" where
  "peekInBatchLoop self dataOffset packetPayloads =
     (case tryPeek dataOffset self of
        Panics m \<Rightarrow> Panics m
      | Returns (packet, ok) \<Rightarrow>
          if \<not> ok then Returns packetPayloads
          else
            (case packetPayloadOf packet of
               Panics m \<Rightarrow> Panics m
             | Returns packetPayload \<Rightarrow>
                 peekInBatchLoop self (dataOffset + length packet)
                   (packetPayloads @ [packetPayload])))"
  by pat_completeness auto
termination
  apply (relation "measure (\<lambda>(self, dataOffset, ps).
                      GetDataSize (inputByteStream self) - dataOffset)")
   apply simp
  apply (auto simp: tryPeek_def packetPayloadOf_def packetHeaderSize_def Let_def
      split: if_splits outcome.splits option.splits)
  done

definition peekInBatch ::
  "deadline_maker \<Rightarrow> Context \<Rightarrow> int \<Rightarrow> transport
    \<Rightarrow> ((bytes list \<times> error option) \<times> transport) outcome" where
  "peekInBatch makeDeadline ctx timeout self =
     (case doPeek makeDeadline ctx timeout self of
        Panics m \<Rightarrow> Panics m
      | Returns ((packet, e), self1) \<Rightarrow>
          if e \<noteq> None then Returns (([], e), self1)
          else
            (case packetPayloadOf packet of
               Panics m \<Rightarrow> Panics m
             | Returns packetPayload \<Rightarrow>
                 (case peekInBatchLoop self1 (length packet) [packetPayload] of
                    Panics m \<Rightarrow> Panics m
                  | Returns packetPayloads \<Rightarrow> Returns ((packetPayloads, None), self1))))"

definition skipInBatch :: "bytes list \<Rightarrow> transport \<Rightarrow> error option \<times> transport" where
  "skipInBatch packetPayloads self =
     (if isClosed self then (Some TransportClosedError, self)
      else
        (let totalPacketSize =
               fold (\<lambda>packetPayload total. total + (packetHeaderSize + length packetPayload))
                 packetPayloads 0
         in (None, self\<lparr>inputByteStream := Skip totalPacketSize (inputByteStream self)\<rparr>)))"

text \<open>
  \<open>transport.write\<close> (\<open>write\<close> is a reserved word here). The callback receives the output stream (a pointer in the source) and returns
  its error and the stream as it leaves it.
\<close>

definition transport_write ::
  "(ByteStream \<Rightarrow> error option \<times> ByteStream) \<Rightarrow> transport \<Rightarrow> (error option \<times> transport) outcome" where
  "transport_write callback self =
     (if isClosed self then Returns (Some TransportClosedError, self)
      else
        (let i = GetDataSize (outputByteStream self);
             (e0, out1) = WriteDirectly packetHeaderSize (\<lambda>buffer. (buffer, None))
                            (outputByteStream self);
             (e, out2) = callback out1
         in if e \<noteq> None
            then Returns (e, self\<lparr>outputByteStream :=
                                    Unwrite (int (GetDataSize out2) - int i) out2\<rparr>)
            else if GetDataSize out2 < i then Panics ''slice bounds out of range''
            else
              (let packet = drop i (GetData out2);
                   packetPayloadSize = int (length packet) - int packetHeaderSize
               in case policy self of
                    None \<Rightarrow> Panics ''nil pointer dereference''
                  | Some p \<Rightarrow>
                      if packetPayloadSize > sint (MaxPacketPayloadSize p)
                      then Returns (Some PacketPayloadTooLargeError,
                                    self\<lparr>outputByteStream := Unwrite (int (length packet)) out2\<rparr>)
                      else
                        (case BigEndian_PutUint32 packet (word_of_int packetPayloadSize) of
                           Panics m \<Rightarrow> Panics m
                         | Returns packet1 \<Rightarrow>
                             Returns (None,
                                      self\<lparr>outputByteStream :=
                                             out2\<lparr>bsData := take i (bsData out2) @ packet1\<rparr>\<rparr>)))))"

text \<open>
  The WebSocket loop of \<open>flush\<close> (lines 202-220). \<open>maxWebSocketFramePayloadSize\<close> is a
  constant of a file that is not under \<open>src/\<close> and is a parameter here; with the value 0
  the loop need not end, so the result is an option (\<open>None\<close>: the loop runs forever).
\<close>

partial_function (option) flushWebSocketLoop ::
  "nat \<Rightarrow> bytes \<Rightarrow> nat \<Rightarrow> nat \<Rightarrow> connection \<Rightarrow> (nat \<times> error option \<times> connection) option" where
  "flushWebSocketLoop maxWebSocketFramePayloadSize data i nn c =
     (let j = i + maxWebSocketFramePayloadSize
      in if j \<ge> length data
         then (case conn_Write c (drop i data) of (n, e, c1) \<Rightarrow> Some (nn + n, e, c1))
         else
           (case conn_Write c (take maxWebSocketFramePayloadSize (drop i data)) of
              (n, e, c1) \<Rightarrow>
                if e \<noteq> None then Some (nn + n, e, c1)
                else flushWebSocketLoop maxWebSocketFramePayloadSize data j (nn + n) c1))"

definition flush ::
  "deadline_maker \<Rightarrow> nat \<Rightarrow> Context \<Rightarrow> int \<Rightarrow> transport
    \<Rightarrow> (error option \<times> transport) outcome option" where
  "flush makeDeadline maxWebSocketFramePayloadSize ctx timeout self =
     (if isClosed self then Some (Returns (Some TransportClosedError, self))
      else
        (case makeDeadline ctx timeout of
           (deadline, e) \<Rightarrow>
             if e \<noteq> None then Some (Returns (e, self))
             else
               (case connection self of
                  None \<Rightarrow> Some (Panics ''nil pointer dereference'')
                | Some c \<Rightarrow>
                    (case conn_SetWriteDeadline deadline c of
                       (e1, c1) \<Rightarrow>
                         if e1 \<noteq> None then Some (Returns (e1, self\<lparr>connection := Some c1\<rparr>))
                         else
                           (let data = GetData (outputByteStream self)
                            in case (case connKind c1 of
                                       WebSocketConn \<Rightarrow>
                                         flushWebSocketLoop maxWebSocketFramePayloadSize data 0 0 c1
                                     | _ \<Rightarrow> Some (conn_Write c1 data)) of
                                 None \<Rightarrow> None
                               | Some (nn, e2, c2) \<Rightarrow>
                                   Some (Returns (e2,
                                           self\<lparr>connection := Some c2,
                                                outputByteStream :=
                                                  Skip nn (outputByteStream self)\<rparr>)))))))"

section \<open>Client channel: the dialing loop\<close>

text \<open>
  \<open>channelImpl\<close> and the address pool (\<open>delay_pool.DelayPool\<close>) are not under \<open>src/\<close>.
  What \<open>ClientChannel.Run\<close> gets from them in one round of its loop is an \<open>attempt\<close>:
  \<open>GetValue\<close> fails; or it yields an address and \<open>connect\<close> fails; or \<open>connect\<close>
  succeeds and \<open>dispatch\<close> returns (nil or an error). The list of attempts is what the
  environment holds for the rounds to come; when it is used up the loop is still running.
\<close>

datatype attempt =
    NoAddress error
  | ConnectFailed string error
  | Connected string "error option"

text \<open>
  The state of a client channel that \<open>Run\<close> reads and writes. Modelled from the spec:
  \<open>implIsClosed\<close> is what \<open>impl.isClosed()\<close> returns, and \<open>impl.close()\<close> (not under
  \<open>src/\<close>) closes the channel, that is, sets it. \<open>stop\<close> tells whether the field \<open>stop\<close>
  holds a cancel function; \<open>dialed\<close> lists the addresses given to \<open>connect\<close>,
  \<open>poolResets\<close> counts the calls of \<open>serverAddresses.Reset\<close> in the loop and
  \<open>poolReleased\<close> records \<open>serverAddresses.GC()\<close>.
\<close>

record ClientChannel =
  implIsClosed :: bool
  stop :: bool
  dialed :: "string list"
  poolResets :: nat
  poolReleased :: bool

text \<open>
  The \<open>for\<close> loop of \<open>Run\<close> (lines 126-161). \<open>Some (e, self)\<close>: the loop was left by
  \<open>break\<close> with the error \<open>e\<close>; \<open>None\<close>: the attempts are used up and the loop goes on.
\<close>

fun dialingLoop :: "ClientChannel \<Rightarrow> attempt list \<Rightarrow> (error \<times> ClientChannel) option" where
  "dialingLoop self [] = None"
| "dialingLoop self (NoAddress e # rest) = Some (e, self)"
| "dialingLoop self (ConnectFailed serverAddress e # rest) =
     (let self1 = self\<lparr>dialed := dialed self @ [serverAddress]\<rparr>
      in if e \<noteq> EOF
         then (if \<not> (case e of OpError _ \<Rightarrow> True | _ \<Rightarrow> False) then Some (e, self1)
               else dialingLoop self1 rest)
         else dialingLoop self1 rest)"
| "dialingLoop self (Connected serverAddress r # rest) =
     (let self1 = self\<lparr>dialed := dialed self @ [serverAddress],
                        poolResets := poolResets self + 1\<rparr>
      in case r of
           Some e \<Rightarrow>
             if e \<noteq> EOF
             then (if \<not> (case e of OpError _ \<Rightarrow> True | _ \<Rightarrow> False) then Some (e, self1)
                   else dialingLoop self1 rest)
             else dialingLoop self1 rest
         | None \<Rightarrow> dialingLoop self1 rest)"

definition ClientChannel_Run ::
  "Context \<Rightarrow> ClientChannel \<Rightarrow> attempt list \<Rightarrow> (error option \<times> ClientChannel) option" where
  "ClientChannel_Run ctx self attempts =
     (if implIsClosed self then Some (None, self)
      else
        (case dialingLoop (self\<lparr>stop := True\<rparr>) attempts of
           None \<Rightarrow> None
         | Some (e, self1) \<Rightarrow>
             Some (Some e, self1\<lparr>implIsClosed := True, stop := False, poolReleased := True\<rparr>)))"

section \<open>Per-call context variables\<close>

type_synonym UUID = bytes

text \<open>
  \<open>ContextVars\<close> values live in a store (a list; the address of a value is its index),
  since calls of one trace share the counter \<open>*nextSpanID\<close>. \<open>nextSpanID = Some a\<close>
  points to the field \<open>bufferOfNextSpanID\<close> of the value at address \<open>a\<close>; \<open>None\<close> is nil.
  \<open>Channel\<close> is the identity of the channel.
\<close>

record ContextVars =
  Channel :: nat
  ServiceName :: string
  MethodName :: string
  MethodIndex :: int32
  FIFOKey :: string
  ExtraData :: "string \<rightharpoonup> bytes"
  TraceID :: UUID
  SpanParentID :: int32
  SpanID :: int32
  logger :: "nat option"
  sequenceNumber :: int32
  bufferOfNextSpanID :: int32
  nextSpanID :: "nat option"

type_synonym store = "ContextVars list"

text \<open>A nil \<open>context.Context\<close> is \<open>None\<close>; calling its \<open>Value\<close> panics.\<close>

definition GetContextVars :: "Context option \<Rightarrow> (nat option \<times> bool) outcome" where
  "GetContextVars ctx =
     (case ctx of
        None \<Rightarrow> Panics ''nil pointer dereference''
      | Some c \<Rightarrow> Returns (ctxVars c, ctxVars c \<noteq> None))"

definition bindContextVars :: "Context option \<Rightarrow> nat \<Rightarrow> Context outcome" where
  "bindContextVars ctx contextVars =
     (case ctx of
        None \<Rightarrow> Panics ''cannot create context from nil parent''
      | Some c \<Rightarrow> Returns (c\<lparr>ctxVars := Some contextVars\<rparr>))"

text \<open>
  \<open>makeContextVars\<close>. \<open>uuid4\<close> is what \<open>uuid.GenerateUUID4()\<close> (of the toolkit package)
  returns in this call. The result is the error or the address of the new value, and the
  store after the call.
\<close>

definition makeContextVars ::
  "UUID \<times> error option \<Rightarrow> store \<Rightarrow> nat \<Rightarrow> string \<Rightarrow> string \<Rightarrow> int32 \<Rightarrow> string
    \<Rightarrow> (string \<rightharpoonup> bytes) \<Rightarrow> bool \<Rightarrow> Context option \<Rightarrow> ((error + nat) \<times> store) outcome" where
  "makeContextVars uuid4 heap sub serviceName methodName methodIndex fifoKey extraData
     tryInheritSpan ctx =
     (let contextVars0 =
            \<lparr>Channel = sub, ServiceName = serviceName, MethodName = methodName,
             MethodIndex = methodIndex, FIFOKey = fifoKey, ExtraData = extraData,
             TraceID = replicate 16 0, SpanParentID = 0, SpanID = 0, logger = None,
             sequenceNumber = 0, bufferOfNextSpanID = 0, nextSpanID = None\<rparr>
      in case (if tryInheritSpan then GetContextVars ctx else Returns (None, False)) of
           Panics m \<Rightarrow> Panics m
         | Returns (parentContextVars, inheritSpan) \<Rightarrow>
             if inheritSpan
             then
               (case parentContextVars of
                  None \<Rightarrow> Panics ''nil pointer dereference''
                | Some parent \<Rightarrow>
                    if parent \<ge> length heap then Panics ''invalid address''
                    else
                      (case nextSpanID (heap ! parent) of
                         None \<Rightarrow> Panics ''nil pointer dereference''
                       | Some counter \<Rightarrow>
                           if counter \<ge> length heap then Panics ''invalid address''
                           else
                             (let contextVars1 =
                                    contextVars0
                                      \<lparr>TraceID := TraceID (heap ! parent),
                                       SpanParentID := SpanID (heap ! parent),
                                       SpanID := bufferOfNextSpanID (heap ! counter),
                                       nextSpanID := Some counter\<rparr>;
                                  heap1 =
                                    heap[counter :=
                                           (heap ! counter)
                                             \<lparr>bufferOfNextSpanID :=
                                                bufferOfNextSpanID (heap ! counter) + 1\<rparr>]
                              in Returns (Inr (length heap1), heap1 @ [contextVars1]))))
             else
               (case uuid4 of
                  (traceID, Some e) \<Rightarrow> Returns (Inl e, heap)
                | (traceID, None) \<Rightarrow>
                    (let contextVars1 =
                           contextVars0
                             \<lparr>TraceID := traceID, SpanParentID := 0, SpanID := 1,
                              bufferOfNextSpanID := 2, nextSpanID := Some (length heap)\<rparr>
                     in Returns (Inr (length heap), heap @ [contextVars1]))))"

section \<open>Outgoing method interceptors\<close>

type_synonym request = bytes

text \<open>A pair \<open>(interface{}, error)\<close>: the response (nil is \<open>None\<close>) and the error.\<close>

type_synonym call_result = "bytes option \<times> error option"

text \<open>
  What an interceptor does with the handler it is given: it returns a result (\<open>Done\<close>), or
  it calls the handler with a context and a request and goes on with what the handler
  returns (\<open>Next\<close>); it may call the handler several times, or never.
\<close>

datatype interception =
    Done call_result
  | Next Context request "call_result \<Rightarrow> interception"

type_synonym OutgoingMethodInterceptor = "Context \<Rightarrow> request \<Rightarrow> interception"

text \<open>
  Of \<open>ChannelPolicy\<close> (declared in a file that is not under \<open>src/\<close>) the code here reads
  the map \<open>outgoingMethodInterceptors\<close>; a key that is not in a Go map yields the nil slice.
\<close>

record ChannelPolicy =
  outgoingMethodInterceptors :: "string \<rightharpoonup> OutgoingMethodInterceptor list"

definition interceptorsAt :: "ChannelPolicy \<Rightarrow> string \<Rightarrow> OutgoingMethodInterceptor list" where
  "interceptorsAt policy0 k =
     (case outgoingMethodInterceptors policy0 k of None \<Rightarrow> [] | Some l \<Rightarrow> l)"

function decimal :: "nat \<Rightarrow> string" where
  "decimal n =
     (if n < 10 then [''0123456789'' ! n]
      else decimal (n div 10) @ [''0123456789'' ! (n mod 10)])"
  by pat_completeness auto
termination
  by (relation "measure id") auto

text \<open>
  Modelled from the spec: \<open>makeMethodInterceptorLocator\<close> is not under \<open>src/\<close>; the key
  of the interceptors of a method is \<open>"svc:methodIndex"\<close>, the index in decimal.
\<close>

definition makeMethodInterceptorLocator :: "string \<Rightarrow> int32 \<Rightarrow> string" where
  "makeMethodInterceptorLocator serviceName methodIndex =
     serviceName @ '':'' @
       (if sint methodIndex < 0 then ''-'' @ decimal (nat (- sint methodIndex))
        else decimal (nat (sint methodIndex)))"

text \<open>The slice taken from the pool is cut to length 0 and then appended to.\<close>

definition makeOutgoingMethodInterceptors ::
  "ChannelPolicy \<Rightarrow> ContextVars \<Rightarrow> OutgoingMethodInterceptor list" where
  "makeOutgoingMethodInterceptors policy0 contextVars =
     (let l0 = [];
          l1 = l0 @ interceptorsAt policy0 [];
          l2 = l1 @ interceptorsAt policy0 (ServiceName contextVars)
      in if sint (MethodIndex contextVars) \<ge> 0
         then l2 @ interceptorsAt policy0
                     (makeMethodInterceptorLocator (ServiceName contextVars)
                        (MethodIndex contextVars))
         else l2)"

section \<open>Calling a method\<close>

text \<open>
  \<open>impl.callMethod\<close> is not under \<open>src/\<close>: what it returns is a parameter. The \<open>select\<close>
  of \<open>doCallMethod\<close> waits for two events; which of them it takes, and what the callback
  has delivered in the first case, is a \<open>select_event\<close>.
\<close>

type_synonym impl_callMethod = "Context \<Rightarrow> nat \<Rightarrow> request \<Rightarrow> string \<Rightarrow> bool \<Rightarrow> error option"

datatype select_event =
    CallbackDelivered "bytes option" int string bytes
  | ContextDone

definition doCallMethod ::
  "impl_callMethod \<Rightarrow> select_event \<Rightarrow> nat \<Rightarrow> string \<Rightarrow> bool \<Rightarrow> Context \<Rightarrow> request \<Rightarrow> call_result" where
  "doCallMethod implCallMethod event contextVars responseType autoRetryMethodCall ctx request =
     (case implCallMethod ctx contextVars request responseType autoRetryMethodCall of
        Some e \<Rightarrow> (None, Some e)
      | None \<Rightarrow>
          (case event of
             CallbackDelivered response2 errorCode errorDesc errorData \<Rightarrow>
               if errorCode \<noteq> 0 then (None, Some (RPCError errorCode errorDesc errorData))
               else (response2, None)
           | ContextDone \<Rightarrow> (None, ctxErr ctx)))"

definition doCallMethodWithoutReturn ::
  "impl_callMethod \<Rightarrow> nat \<Rightarrow> string \<Rightarrow> bool \<Rightarrow> Context \<Rightarrow> request \<Rightarrow> error option" where
  "doCallMethodWithoutReturn implCallMethod contextVars responseType autoRetryMethodCall ctx request =
     implCallMethod ctx contextVars request responseType autoRetryMethodCall"

text \<open>
  The variables of one \<open>callMethod\<close>: \<open>idx\<close> is the \<open>i\<close> that the handler closure shares
  with all its calls. The other fields record what happened: the indices of the interceptors
  invoked, in order; the calls of \<open>poolOfOutgoingMethodInterceptors.Put\<close>; the context and
  request of each \<open>doCallMethod\<close>.
\<close>

record call_state =
  idx :: nat
  invoked :: "nat list"
  poolPuts :: nat
  delivered :: "(Context \<times> request) list"

definition initialCallState :: call_state where
  "initialCallState = \<lparr>idx = 0, invoked = [], poolPuts = 0, delivered = []\<rparr>"

text \<open>Running an interceptor against a handler \<open>h\<close>; a panic of the handler goes through.\<close>

primrec runInterception ::
  "(Context \<Rightarrow> request \<Rightarrow> call_state \<Rightarrow> (call_result outcome \<times> call_state) option)
    \<Rightarrow> interception \<Rightarrow> call_state \<Rightarrow> (call_result outcome \<times> call_state) option" where
  "runInterception h (Done r) st = Some (Returns r, st)"
| "runInterception h (Next ctx request k) st =
     (case h ctx request st of
        None \<Rightarrow> None
      | Some (Panics m, st1) \<Rightarrow> Some (Panics m, st1)
      | Some (Returns r, st1) \<Rightarrow> runInterception h (k r) st1)"

text \<open>
  The closure \<open>outgoingMethodHandler\<close> of \<open>callMethod\<close> and \<open>callMethodWithoutReturn\<close>
  (lines 384-393, 459-468). It calls itself through the interceptors, so the model has a
  bound on the depth of these calls and returns \<open>None\<close> when the bound is used up;
  a bound of the number of interceptors is enough (\<open>outgoingMethodHandler_returns\<close>).
\<close>

primrec outgoingMethodHandler ::
  "nat \<Rightarrow> OutgoingMethodInterceptor list \<Rightarrow> (Context \<Rightarrow> request \<Rightarrow> call_result)
    \<Rightarrow> Context \<Rightarrow> request \<Rightarrow> call_state \<Rightarrow> (call_result outcome \<times> call_state) option" where
  "outgoingMethodHandler 0 outgoingInterceptors doCall =
     (\<lambda>ctx request st.
        if idx st = length outgoingInterceptors
        then Some (Returns (doCall ctx request),
                   st\<lparr>poolPuts := poolPuts st + 1, delivered := delivered st @ [(ctx, request)]\<rparr>)
        else None)"
| "outgoingMethodHandler (Suc depth) outgoingInterceptors doCall =
     (\<lambda>ctx request st.
        if idx st = length outgoingInterceptors
        then Some (Returns (doCall ctx request),
                   st\<lparr>poolPuts := poolPuts st + 1, delivered := delivered st @ [(ctx, request)]\<rparr>)
        else if idx st < length outgoingInterceptors
        then runInterception (outgoingMethodHandler depth outgoingInterceptors doCall)
               ((outgoingInterceptors ! idx st) ctx request)
               (st\<lparr>idx := idx st + 1, invoked := invoked st @ [idx st]\<rparr>)
        else Some (Panics ''index out of range'', st))"

text \<open>
  \<open>callMethod\<close>, with \<open>doCall\<close> for \<open>self.doCallMethod\<close> and its fixed arguments;
  \<open>callMethodWithoutReturn\<close> is the same code around \<open>doCallMethodWithoutReturn\<close>.
\<close>

definition callMethod ::
  "OutgoingMethodInterceptor list \<Rightarrow> (Context \<Rightarrow> request \<Rightarrow> call_result) \<Rightarrow> Context option \<Rightarrow> nat
    \<Rightarrow> request \<Rightarrow> (call_result outcome \<times> call_state) option" where
  "callMethod outgoingInterceptors doCall ctx contextVars request =
     (let n = length outgoingInterceptors
      in if n = 0
         then
           (case bindContextVars ctx contextVars of
              Panics m \<Rightarrow> Some (Panics m, initialCallState\<lparr>poolPuts := 1\<rparr>)
            | Returns ctx1 \<Rightarrow>
                Some (Returns (doCall ctx1 request),
                      initialCallState\<lparr>poolPuts := 1, delivered := [(ctx1, request)]\<rparr>))
         else
           (case bindContextVars ctx contextVars of
              Panics m \<Rightarrow> Some (Panics m, initialCallState)
            | Returns ctx1 \<Rightarrow>
                outgoingMethodHandler n outgoingInterceptors doCall ctx1 request initialCallState))"

definition callMethodWithoutReturn ::
  "OutgoingMethodInterceptor list \<Rightarrow> (Context \<Rightarrow> request \<Rightarrow> error option) \<Rightarrow> Context option \<Rightarrow> nat
    \<Rightarrow> request \<Rightarrow> (error option outcome \<times> call_state) option" where
  "callMethodWithoutReturn outgoingInterceptors doCall ctx contextVars request =
     (case callMethod outgoingInterceptors (\<lambda>ctx1 request1. (None, doCall ctx1 request1))
             ctx contextVars request of
        None \<Rightarrow> None
      | Some (Panics m, st) \<Rightarrow> Some (Panics m, st)
      | Some (Returns (r, e), st) \<Rightarrow> Some (Returns e, st))"


definition ClientChannel_CallMethodWithoutReturn ::
  "UUID \<times> error option \<Rightarrow> impl_callMethod \<Rightarrow> store \<Rightarrow> nat \<Rightarrow> ChannelPolicy
    \<Rightarrow> Context option \<Rightarrow> string \<Rightarrow> string \<Rightarrow> int32 \<Rightarrow> string \<Rightarrow> (string \<rightharpoonup> bytes) \<Rightarrow> request
    \<Rightarrow> string \<Rightarrow> bool \<Rightarrow> (error option outcome \<times> store \<times> call_state) option" where
  "ClientChannel_CallMethodWithoutReturn uuid4 implCallMethod heap sub policy0 ctx serviceName
     methodName methodIndex fifoKey extraData request responseType autoRetryMethodCall =
     (case makeContextVars uuid4 heap sub serviceName methodName methodIndex fifoKey extraData
             False None of
        Panics m \<Rightarrow> Some (Panics m, heap, initialCallState)
      | Returns (Inl e, heap1) \<Rightarrow> Some (Returns (Some e), heap1, initialCallState)
      | Returns (Inr contextVars, heap1) \<Rightarrow>
          (case callMethodWithoutReturn
                  (makeOutgoingMethodInterceptors policy0 (heap1 ! contextVars))
                  (doCallMethodWithoutReturn implCallMethod contextVars responseType
                     autoRetryMethodCall)
                  ctx contextVars request of
             None \<Rightarrow> None
           | Some (r, st) \<Rightarrow> Some (r, heap1, st)))"


definition ServerChannel_CallMethodWithoutReturn ::
  "UUID \<times> error option \<Rightarrow> impl_callMethod \<Rightarrow> store \<Rightarrow> nat \<Rightarrow> ChannelPolicy
    \<Rightarrow> Context option \<Rightarrow> string \<Rightarrow> string \<Rightarrow> int32 \<Rightarrow> string \<Rightarrow> (string \<rightharpoonup> bytes) \<Rightarrow> request
    \<Rightarrow> string \<Rightarrow> bool \<Rightarrow> (error option outcome \<times> store \<times> call_state) option" where
  "ServerChannel_CallMethodWithoutReturn uuid4 implCallMethod heap sub policy0 ctx serviceName
     methodName methodIndex fifoKey extraData request responseType autoRetryMethodCall =
     (case makeContextVars uuid4 heap sub serviceName methodName methodIndex fifoKey extraData
             False None of
        Panics m \<Rightarrow> Some (Panics m, heap, initialCallState)
      | Returns (Inl e, heap1) \<Rightarrow> Some (Returns (Some e), heap1, initialCallState)
      | Returns (Inr contextVars, heap1) \<Rightarrow>
          (case callMethodWithoutReturn
                  (makeOutgoingMethodInterceptors policy0 (heap1 ! contextVars))
                  (doCallMethodWithoutReturn implCallMethod contextVars responseType
                     autoRetryMethodCall)
                  ctx contextVars request of
             None \<Rightarrow> None
           | Some (r, st) \<Rightarrow> Some (r, heap1, st)))"

section \<open>The interceptor pipeline and the root call as the specification words them\<close>






text \<open>
  The \<open>ContextVars\<close> of a root call: the generated trace id, \<open>spanId = 1\<close>,
  \<open>spanParentId = 0\<close>, and a counter of its own (at the value's own address) set to 2.
\<close>

definition rootContextVars ::
  "nat \<Rightarrow> string \<Rightarrow> string \<Rightarrow> int32 \<Rightarrow> string \<Rightarrow> (string \<rightharpoonup> bytes) \<Rightarrow> UUID \<Rightarrow> nat \<Rightarrow> ContextVars" where
  "rootContextVars sub serviceName methodName methodIndex fifoKey extraData traceID address =
     \<lparr>Channel = sub, ServiceName = serviceName, MethodName = methodName,
      MethodIndex = methodIndex, FIFOKey = fifoKey, ExtraData = extraData,
      TraceID = traceID, SpanParentID = 0, SpanID = 1, logger = None,
      sequenceNumber = 0, bufferOfNextSpanID = 2, nextSpanID = Some address\<rparr>"

section \<open>The packet format as the specification words it\<close>

text \<open>
  A packet is a 4-byte big-endian payload length followed by the payload bytes.
  \<open>bigEndian32 n\<close> is that length prefix, written with division and remainder.
\<close>

definition bigEndian32 :: "nat \<Rightarrow> bytes" where
  "bigEndian32 n = [of_nat (n div 2 ^ 24 mod 256), of_nat (n div 2 ^ 16 mod 256),
                    of_nat (n div 2 ^ 8 mod 256), of_nat (n mod 256)]"

definition bigEndianValue :: "bytes \<Rightarrow> nat" where
  "bigEndianValue b =
     (case b of
        b0 # b1 # b2 # b3 # _ \<Rightarrow> unat b0 * 2 ^ 24 + unat b1 * 2 ^ 16 + unat b2 * 2 ^ 8 + unat b3
      | _ \<Rightarrow> 0)"

text \<open>
  The packets that are complete in a buffer: the payloads of the frames at its front, in
  order, up to the first frame that is not wholly there or whose length field is above
  the bound on payloads (by the data model no packet is that large).
\<close>

function bufferedPackets :: "int \<Rightarrow> bytes \<Rightarrow> bytes list" where
  "bufferedPackets maxPayloadSize data =
     (if length data < 4 then []
      else
        (let n = bigEndianValue (take 4 data)
         in if int n > maxPayloadSize then []
            else if length data < 4 + n then []
            else take n (drop 4 data) # bufferedPackets maxPayloadSize (drop (4 + n) data)))"
  by pat_completeness auto
termination
  by (relation "measure (\<lambda>(m, data). length data)") auto

section \<open>Sample values\<close>

text \<open>An idle TCP connection, an open transport on it, and a context without deadline.\<close>

definition idleConnection :: connection where
  "idleConnection = \<lparr>connKind = TCPConn, connInput = [], connWriteResults = [],
     connOutput = [], connSetDeadlineResult = None, connReadDeadline = None,
     connWriteDeadline = None, connCloseResult = None, connLinger = None, connClosed = False\<rparr>"

definition openTransport :: "bytes \<Rightarrow> transport" where
  "openTransport received =
     \<lparr>policy = Some \<lparr>InitialReadBufferSize = 4096, MaxPacketPayloadSize = 65536,
                       validateOnce = True\<rparr>,
      connection = Some idleConnection,
      inputByteStream = \<lparr>bsData = received, bsBuffer = replicate 8 0\<rparr>,
      outputByteStream = emptyByteStream,
      openness = 1\<rparr>"

text \<open>An open transport with an empty input buffer, on a connection with input to come.\<close>

definition receiving :: "read_event list \<Rightarrow> transport" where
  "receiving events =
     \<lparr>policy = Some \<lparr>InitialReadBufferSize = 4096, MaxPacketPayloadSize = 65536,
                       validateOnce = True\<rparr>,
      connection = Some (idleConnection\<lparr>connInput := events\<rparr>),
      inputByteStream = \<lparr>bsData = [], bsBuffer = replicate 16 0\<rparr>,
      outputByteStream = emptyByteStream,
      openness = 1\<rparr>"

definition noDeadline :: deadline_maker where
  "noDeadline ctx timeout = (0, None)"

definition background :: Context where
  "background = \<lparr>ctxVars = None, ctxErr = None\<rparr>"

text \<open>
  A client channel that has not run yet; the variables of a root call; an \<open>impl.callMethod\<close>
  that accepts every call; a cancelled context; interceptors that can be told apart (each
  appends its byte to the request) and one that refuses the call; a policy that registers
  them in every scope.
\<close>

definition freshClientChannel :: ClientChannel where
  "freshClientChannel = \<lparr>implIsClosed = False, stop = False, dialed = [], poolResets = 0,
                          poolReleased = False\<rparr>"

definition sampleRoot :: ContextVars where
  "sampleRoot =
     \<lparr>Channel = 0, ServiceName = ''svc'', MethodName = ''first'', MethodIndex = 0, FIFOKey = [],
      ExtraData = Map.empty, TraceID = replicate 16 7, SpanParentID = 0, SpanID = 1,
      logger = None, sequenceNumber = 0, bufferOfNextSpanID = 2, nextSpanID = Some 0\<rparr>"

definition acceptingImpl :: impl_callMethod where
  "acceptingImpl ctx contextVars request responseType autoRetryMethodCall = None"

definition canceled :: Context where
  "canceled = \<lparr>ctxVars = None, ctxErr = Some (ContextErr ''context canceled'')\<rparr>"




text \<open>
  A policy that was validated and whose \<open>MaxPacketPayloadSize\<close> was assigned afterwards; a
  channel policy without interceptors; a \<open>doCall\<close> that answers with the request it gets.
\<close>

definition reassignedPolicy :: TransportPolicy where
  "reassignedPolicy =
     (Validate \<lparr>InitialReadBufferSize = 0, MaxPacketPayloadSize = 0, validateOnce = False\<rparr>)
       \<lparr>MaxPacketPayloadSize := 7\<rparr>"

definition emptyPolicy :: ChannelPolicy where
  "emptyPolicy = \<lparr>outgoingMethodInterceptors = Map.empty\<rparr>"


section \<open>Properties of the transport policy\<close>

lemma sint_transport_constants:
  "sint defaultInitialReadBufferSizeOfTransport = 4096"
  "sint minInitialReadBufferSizeOfTransport = 256"
  "sint maxInitialReadBufferSizeOfTransport = 65536"
  "sint minMaxPacketPayloadSize = 65536"
  by (simp_all add: defaultInitialReadBufferSizeOfTransport_def
      minInitialReadBufferSizeOfTransport_def maxInitialReadBufferSizeOfTransport_def
      minMaxPacketPayloadSize_def)

text \<open>
  C9, as the claim states it, fails in its last sentence: a policy that has been validated
  and whose \<open>MaxPacketPayloadSize\<close> is then set to 7 is left at 7 by \<open>Validate\<close>.
\<close>

theorem validated_policy_counterexample:
  "\<not> 65536 \<le> sint (MaxPacketPayloadSize (Validate reassignedPolicy))"
  by (simp add: reassignedPolicy_def Validate_def Let_def sint_transport_constants)

text \<open>
  C9, amended. \<open>Validate\<close> normalises a policy exactly once. On a policy whose Once has not
  run, an \<open>InitialReadBufferSize\<close> of 0 becomes 4096 and any other value is clamped into
  256..65536 (as signed numbers), a \<open>MaxPacketPayloadSize\<close> below 65536 becomes 65536 and a
  larger one is kept, so that \<open>MaxPacketPayloadSize \<ge> 65536\<close> when this first \<open>Validate\<close>
  returns, and the Once is marked as run. On a policy whose Once has run, \<open>Validate\<close>
  changes nothing, whatever the fields hold.
\<close>

theorem Validate_runs_once:
  "(\<not> validateOnce p \<longrightarrow>
      sint (InitialReadBufferSize (Validate p)) =
        (if InitialReadBufferSize p = 0 then 4096
         else max 256 (min 65536 (sint (InitialReadBufferSize p))))
    \<and> sint (MaxPacketPayloadSize (Validate p)) = max 65536 (sint (MaxPacketPayloadSize p))
    \<and> 65536 \<le> sint (MaxPacketPayloadSize (Validate p))
    \<and> validateOnce (Validate p))
   \<and> (validateOnce p \<longrightarrow> Validate p = p)"
  by (simp add: Validate_def Let_def sint_transport_constants)

theorem Validate_runs_once_witness:
  "sint (InitialReadBufferSize
           (Validate \<lparr>InitialReadBufferSize = 100, MaxPacketPayloadSize = 10,
                      validateOnce = False\<rparr>)) = 256
   \<and> sint (MaxPacketPayloadSize
           (Validate \<lparr>InitialReadBufferSize = 100, MaxPacketPayloadSize = 10,
                      validateOnce = False\<rparr>)) = 65536
   \<and> validateOnce reassignedPolicy
   \<and> Validate reassignedPolicy = reassignedPolicy
   \<and> sint (MaxPacketPayloadSize (Validate reassignedPolicy)) = 7"
  using Validate_runs_once
    [of "\<lparr>InitialReadBufferSize = 100, MaxPacketPayloadSize = 10, validateOnce = False\<rparr>"]
    Validate_runs_once [of reassignedPolicy]
  by (simp add: reassignedPolicy_def Validate_def Let_def sint_transport_constants)

section \<open>Properties of the byte order functions\<close>

lemma ucast_drop_bit_byte:
  "(ucast (drop_bit k (w :: 32 word)) :: byte) = of_nat (unat w div 2 ^ k mod 256)"
  apply (rule word_unat_eq_iff[THEN iffD2])
  apply (simp only: unsigned_ucast_eq unat_drop_bit_eq)
  apply (simp add: unat_of_nat take_bit_eq_mod drop_bit_eq_div)
  done

lemma ucast_byte:
  "(ucast (w :: 32 word) :: byte) = of_nat (unat w mod 256)"
  apply (rule word_unat_eq_iff[THEN iffD2])
  apply (simp add: unsigned_ucast_eq unat_of_nat take_bit_eq_mod)
  done

lemma Uint32_PutUint32:
  "BigEndian_Uint32 ([ucast (drop_bit 24 v), ucast (drop_bit 16 v), ucast (drop_bit 8 v), ucast v] @ rest) = Returns (v :: 32 word)"
  apply (simp add: BigEndian_Uint32_def)
  apply (rule bit_word_eqI)
  apply (auto simp: bit_simps)
  apply (rule ccontr, simp add: not_less)
  done

lemma PutUint32_bytes:
  "[ucast (drop_bit 24 v), ucast (drop_bit 16 v), ucast (drop_bit 8 v), ucast v] =
   bigEndian32 (unat (v :: 32 word))"
  unfolding bigEndian32_def
  apply (simp only: ucast_drop_bit_byte)
  apply (simp only: ucast_byte)
  done

lemma PutUint32_bigEndian32:
  "4 \<le> length b \<Longrightarrow> n < 2 ^ 32 \<Longrightarrow>
   BigEndian_PutUint32 b (word_of_int (int n)) = Returns (bigEndian32 n @ drop 4 b)"
  unfolding BigEndian_PutUint32_def
  by (simp only: PutUint32_bytes) (simp add: unat_of_nat)

lemma Uint32_bigEndian32:
  "n < 2 ^ 32 \<Longrightarrow> BigEndian_Uint32 (bigEndian32 n @ rest) = Returns (of_nat n)"
  using Uint32_PutUint32[of "of_nat n" rest]
  by (simp only: PutUint32_bytes) (simp add: unat_of_nat)


lemma bigEndian32_length: "length (bigEndian32 n) = 4"
  by (simp add: bigEndian32_def)

lemma payload_fits:
  "int n \<le> sint (m :: int32) \<Longrightarrow> n < 2 ^ 32"
proof -
  assume a: "int n \<le> sint m"
  have "sint m < 2 ^ 31" using sint_lt [of m] by simp
  with a show ?thesis by simp
qed

lemma byte_lt: "unat (b :: byte) < 256"
  using unsigned_less [of b, where ?'a = nat] by simp

lemma div_mod_digit:
  "r < m \<Longrightarrow> (q * m + r) div m = (q::nat)" "r < m \<Longrightarrow> (q * m + r) mod m = r"
  by simp_all

lemma split4:
  assumes "a < 256" "b < 256" "c < 256" "d < (256::nat)"
  shows "(a * 2 ^ 24 + b * 2 ^ 16 + c * 2 ^ 8 + d) div 2 ^ 24 mod 256 = a"
    and "(a * 2 ^ 24 + b * 2 ^ 16 + c * 2 ^ 8 + d) div 2 ^ 16 mod 256 = b"
    and "(a * 2 ^ 24 + b * 2 ^ 16 + c * 2 ^ 8 + d) div 2 ^ 8 mod 256 = c"
    and "(a * 2 ^ 24 + b * 2 ^ 16 + c * 2 ^ 8 + d) mod 256 = d"
    and "a * 2 ^ 24 + b * 2 ^ 16 + c * 2 ^ 8 + d < 2 ^ 32"
proof -
  let ?n = "a * 2 ^ 24 + b * 2 ^ 16 + c * 2 ^ 8 + d"
  have r3: "b * 65536 + c * 256 + d < 16777216" using assms by linarith
  have r2: "c * 256 + d < 65536" using assms by linarith
  have e3: "?n = a * 16777216 + (b * 65536 + c * 256 + d)" by simp
  have e2: "?n = (a * 256 + b) * 65536 + (c * 256 + d)" by simp
  have e1: "?n = (a * 65536 + b * 256 + c) * 256 + d" by simp
  have "?n div 16777216 = a" unfolding e3 using r3 by (rule div_mod_digit(1))
  then show "?n div 2 ^ 24 mod 256 = a" using assms by simp
  have "?n div 65536 = a * 256 + b" unfolding e2 using r2 by (rule div_mod_digit(1))
  then show "?n div 2 ^ 16 mod 256 = b" using assms by simp
  have "?n div 256 = a * 65536 + b * 256 + c" unfolding e1 using assms(4) by (rule div_mod_digit(1))
  then have "?n div 256 mod 256 = ((a * 256 + b) * 256 + c) mod 256" by (simp add: algebra_simps)
  also have "\<dots> = c" using assms(3) by (rule div_mod_digit(2))
  finally show "?n div 2 ^ 8 mod 256 = c" by simp
  show "?n mod 256 = d" unfolding e1 using assms(4) by (rule div_mod_digit(2))
  show "?n < 2 ^ 32" using assms by simp
qed

lemma bigEndian32_value:
  "bigEndian32 (bigEndianValue [b0, b1, b2, b3]) = [b0, b1, b2, b3]"
  unfolding bigEndian32_def bigEndianValue_def
  by (simp only: list.case split4 [OF byte_lt byte_lt byte_lt byte_lt] of_nat_unat ucast_id)

lemma Uint32_value:
  "BigEndian_Uint32 (b0 # b1 # b2 # b3 # rest) = Returns w \<Longrightarrow>
   uint w = int (bigEndianValue [b0, b1, b2, b3])"
proof -
  let ?n = "bigEndianValue [b0, b1, b2, b3]"
  assume a: "BigEndian_Uint32 (b0 # b1 # b2 # b3 # rest) = Returns w"
  have lt: "?n < 2 ^ 32"
    unfolding bigEndianValue_def
    by (simp only: list.case split4(5) [OF byte_lt byte_lt byte_lt byte_lt])
  from Uint32_bigEndian32 [OF lt, of rest] a have "w = of_nat ?n"
    by (simp add: bigEndian32_value)
  then show ?thesis using lt by (simp add: unsigned_of_nat take_bit_nat_eq_self)
qed


lemma four_bytes: "length h = 4 \<Longrightarrow> \<exists>b0 b1 b2 b3. h = [b0, b1, b2, b3 :: byte]"
  by (cases h; simp; rename_tac h1; case_tac h1; simp; rename_tac h2; case_tac h2; simp;
      rename_tac h3; case_tac h3; simp)

lemma Uint32_header_value:
  assumes "length h = 4" and "BigEndian_Uint32 h = Returns w"
  shows "uint w = int (bigEndianValue h)"
proof -
  from assms(1) obtain b0 b1 b2 b3 where h: "h = [b0, b1, b2, b3]"
    using four_bytes by blast
  with assms(2) show ?thesis using Uint32_value [of b0 b1 b2 b3 "[]" w] by simp
qed

lemma Uint32_returns: "length h = 4 \<Longrightarrow> \<exists>w. BigEndian_Uint32 h = Returns w"
  using four_bytes [of h] by (auto simp: BigEndian_Uint32_def)

section \<open>Properties of the transport\<close>

lemma reserve_header:
  "\<exists>hdr s1. WriteDirectly packetHeaderSize (\<lambda>buffer. (buffer, None)) s = (None, s1)
      \<and> length hdr = 4 \<and> GetData s1 = GetData s @ hdr"
  by (auto simp: WriteDirectly_def ReserveBuffer_def CommitBuffer_def GetData_def
      packetHeaderSize_def Let_def)

lemma GetData_Write: "GetData (Write bs s) = GetData s @ bs"
  by (simp add: Write_def ReserveBuffer_def CommitBuffer_def GetData_def Let_def)

lemma Unwrite_appended:
  "GetData s2 = d @ x \<Longrightarrow> GetData (Unwrite (int (length x)) s2) = d"
  by (simp add: Unwrite_def GetData_def Let_def)

lemma WriteDirectly_empty:
  "WriteDirectly packetHeaderSize (\<lambda>buffer. (buffer, None)) emptyByteStream =
     (None, \<lparr>bsData = [0, 0, 0, 0], bsBuffer = []\<rparr>)"
  by (simp add: WriteDirectly_def ReserveBuffer_def CommitBuffer_def emptyByteStream_def
      packetHeaderSize_def Let_def numeral_eq_Suc)

text \<open>
  C1. Packet framing round-trip. On an open transport whose policy admits the payload, a
  write whose callback appends the payload succeeds and appends to the output stream exactly
  the 4-byte big-endian payload length followed by the payload, leaving the rest of the
  transport as it was; and a peek on an open transport whose input stream starts with those
  bytes returns that payload, without touching the transport or its connection.
\<close>

theorem packet_framing_roundtrip:
  assumes op: "\<not> isClosed t" and pol: "policy t = Some p"
    and fit: "int (length payload) \<le> sint (MaxPacketPayloadSize p)"
    and cb: "callback (snd (WriteDirectly packetHeaderSize (\<lambda>buffer. (buffer, None))
                              (outputByteStream t))) = (None, out2)"
    and app: "GetData out2 =
                GetData (snd (WriteDirectly packetHeaderSize (\<lambda>buffer. (buffer, None))
                                (outputByteStream t))) @ payload"
    and rop: "\<not> isClosed r" and rpol: "policy r = Some q"
    and rfit: "int (length payload) \<le> sint (MaxPacketPayloadSize q)"
    and rin: "GetData (inputByteStream r) = bigEndian32 (length payload) @ payload @ rest"
  shows "(\<exists>t'. transport_write callback t = Returns (None, t')
              \<and> GetData (outputByteStream t') =
                  GetData (outputByteStream t) @ bigEndian32 (length payload) @ payload
              \<and> t'\<lparr>outputByteStream := outputByteStream t\<rparr> = t)
         \<and> peek makeDeadline ctx timeout r = Returns ((payload, None), r)"
proof
  obtain hdr out1 where w: "WriteDirectly packetHeaderSize (\<lambda>buffer. (buffer, None))
                               (outputByteStream t) = (None, out1)"
    and hdr: "length hdr = 4" and d1: "GetData out1 = GetData (outputByteStream t) @ hdr"
    using reserve_header by blast
  from cb w have cb1: "callback out1 = (None, out2)" by simp
  from app w d1 have d2: "GetData out2 = GetData (outputByteStream t) @ (hdr @ payload)" by simp
  have sz: "GetDataSize out2 = GetDataSize (outputByteStream t) + (4 + length payload)"
    using d2 hdr by (simp add: GetDataSize_def GetData_def)
  have dr: "drop (GetDataSize (outputByteStream t)) (GetData out2) = hdr @ payload"
    and tk: "take (GetDataSize (outputByteStream t)) (bsData out2) = GetData (outputByteStream t)"
    using d2 by (simp_all add: GetDataSize_def GetData_def)
  have lt: "length payload < 2 ^ 32" using fit by (rule payload_fits)
  have put: "BigEndian_PutUint32 (hdr @ payload) (word_of_int (int (length payload))) =
               Returns (bigEndian32 (length payload) @ payload)"
    using PutUint32_bigEndian32 [of "hdr @ payload" "length payload"] hdr lt by simp
  show "\<exists>t'. transport_write callback t = Returns (None, t')
              \<and> GetData (outputByteStream t') =
                  GetData (outputByteStream t) @ bigEndian32 (length payload) @ payload
              \<and> t'\<lparr>outputByteStream := outputByteStream t\<rparr> = t"
    using op pol w cb1 sz hdr dr tk fit put
    by (simp add: transport_write_def Let_def packetHeaderSize_def GetData_def)
next
  have lt: "length payload < 2 ^ 32" using rfit by (rule payload_fits)
  have sz: "GetDataSize (inputByteStream r) = 4 + length payload + length rest"
    using rin by (simp add: GetDataSize_def GetData_def bigEndian32_length)
  have hd: "BigEndian_Uint32 (take packetHeaderSize (GetData (inputByteStream r))) =
              Returns (of_nat (length payload))"
    using rin Uint32_bigEndian32 [OF lt, of "[]"]
    by (simp add: packetHeaderSize_def bigEndian32_length)
  have u: "uint (of_nat (length payload) :: 32 word) = int (length payload)"
    using lt by (simp add: unsigned_of_nat take_bit_nat_eq_self)
  have pk: "take (4 + length payload) (GetData (inputByteStream r)) =
              bigEndian32 (length payload) @ payload"
    using rin by (simp add: bigEndian32_length)
  have body: "doPeekBody makeDeadline ctx timeout False r =
                Returns ((bigEndian32 (length payload) @ payload, None), r)"
    using rpol rfit hd u sz pk
    by (simp add: doPeekBody_def Let_def packetHeaderSize_def nat_add_distrib)
  have "doPeek makeDeadline ctx timeout r =
          Returns ((bigEndian32 (length payload) @ payload, None), r)"
    using rop sz body by (simp add: doPeek_def doPeekHeader_def packetHeaderSize_def)
  then show "peek makeDeadline ctx timeout r = Returns ((payload, None), r)"
    by (simp add: peek_def packetPayloadOf_def packetHeaderSize_def bigEndian32_length)
qed

theorem packet_framing_roundtrip_witness:
  "(\<exists>t'. transport_write (\<lambda>s. (None, Write [1, 2, 3] s)) (openTransport []) = Returns (None, t')
        \<and> GetData (outputByteStream t') = [0, 0, 0, 3, 1, 2, 3])
   \<and> peek noDeadline background 0 (openTransport [0, 0, 0, 3, 1, 2, 3]) =
       Returns (([1, 2, 3], None), openTransport [0, 0, 0, 3, 1, 2, 3])"
proof -
  let ?p = "\<lparr>InitialReadBufferSize = 4096, MaxPacketPayloadSize = 65536, validateOnce = True\<rparr>"
  let ?cb = "\<lambda>s. (None :: error option, Write [1, 2, 3] s)"
  have h1: "\<not> isClosed (openTransport rcv)" for rcv
    by (simp add: isClosed_def openTransport_def)
  have h2: "policy (openTransport rcv) = Some ?p" for rcv
    by (simp add: openTransport_def)
  have h3: "int (length [1, 2, 3 :: byte]) \<le> sint (MaxPacketPayloadSize ?p)"
    by simp
  have o: "outputByteStream (openTransport []) = emptyByteStream"
    by (simp add: openTransport_def)
  have h4: "?cb (snd (WriteDirectly packetHeaderSize (\<lambda>buffer. (buffer, None))
                        (outputByteStream (openTransport [])))) =
            (None, Write [1, 2, 3] \<lparr>bsData = [0, 0, 0, 0], bsBuffer = []\<rparr>)"
    by (simp add: o WriteDirectly_empty)
  have h5: "GetData (Write [1, 2, 3] \<lparr>bsData = [0, 0, 0, 0], bsBuffer = []\<rparr>) =
            GetData (snd (WriteDirectly packetHeaderSize (\<lambda>buffer. (buffer, None))
                        (outputByteStream (openTransport [])))) @ [1, 2, 3]"
    by (simp add: o WriteDirectly_empty Write_def ReserveBuffer_def CommitBuffer_def GetData_def
        Let_def)
  have h6: "GetData (inputByteStream (openTransport [0, 0, 0, 3, 1, 2, 3])) =
            bigEndian32 (length [1, 2, 3 :: byte]) @ [1, 2, 3] @ []"
    by (simp add: openTransport_def GetData_def bigEndian32_def)
  from packet_framing_roundtrip [where callback = ?cb and makeDeadline = noDeadline
      and ctx = background and timeout = 0, OF h1 h2 h3 h4 h5 h1 h2 h3 h6]
  show ?thesis
    by (auto simp: o bigEndian32_def GetData_def emptyByteStream_def)
qed

text \<open>
  C2. A write that fails leaves the output unchanged. The callback appends to the stream it
  is given. If it returns an error, or if it returns none and the payload is larger than
  \<open>MaxPacketPayloadSize\<close>, then \<open>write\<close> returns that error (respectively
  \<open>PacketPayloadTooLargeError\<close>), the data of the output stream is what it was before the
  call (the four reserved bytes and the appended bytes are gone), and nothing else in the
  transport has changed.
\<close>

theorem write_atomic_on_failure:
  assumes op: "\<not> isClosed t" and pol: "policy t = Some p"
    and cb: "callback (snd (WriteDirectly packetHeaderSize (\<lambda>buffer. (buffer, None))
                              (outputByteStream t))) = (e, out2)"
    and app: "GetData out2 =
                GetData (snd (WriteDirectly packetHeaderSize (\<lambda>buffer. (buffer, None))
                                (outputByteStream t))) @ appended"
    and fail: "e \<noteq> None \<or> int (length appended) > sint (MaxPacketPayloadSize p)"
  shows "\<exists>t'. transport_write callback t =
                 Returns (if e \<noteq> None then e else Some PacketPayloadTooLargeError, t')
              \<and> GetData (outputByteStream t') = GetData (outputByteStream t)
              \<and> t'\<lparr>outputByteStream := outputByteStream t\<rparr> = t"
proof -
  obtain hdr out1 where w: "WriteDirectly packetHeaderSize (\<lambda>buffer. (buffer, None))
                               (outputByteStream t) = (None, out1)"
    and hdr: "length hdr = 4" and d1: "GetData out1 = GetData (outputByteStream t) @ hdr"
    using reserve_header by blast
  from cb w have cb1: "callback out1 = (e, out2)" by simp
  from app w d1 have d2: "GetData out2 = GetData (outputByteStream t) @ (hdr @ appended)" by simp
  have sz: "GetDataSize out2 = GetDataSize (outputByteStream t) + (4 + length appended)"
    using d2 hdr by (simp add: GetDataSize_def GetData_def)
  have un: "GetData (Unwrite (int (length (hdr @ appended))) out2) = GetData (outputByteStream t)"
    by (rule Unwrite_appended [OF d2])
  have dr: "drop (GetDataSize (outputByteStream t)) (GetData out2) = hdr @ appended"
    using d2 by (simp add: GetDataSize_def GetData_def)
  show ?thesis
  proof (cases "e = None")
    case False
    then show ?thesis
      using op w cb1 sz un hdr
      by (simp add: transport_write_def Let_def)
  next
    case True
    with fail have big: "int (length appended) > sint (MaxPacketPayloadSize p)" by simp
    show ?thesis
      using True op pol w cb1 sz un hdr dr big
      by (simp add: transport_write_def Let_def packetHeaderSize_def)
  qed
qed


theorem write_atomic_on_failure_witness:
  "(\<exists>t'. transport_write (\<lambda>s. (Some (OtherError ''marshal''), Write [1, 2, 3] s)) (openTransport [])
           = Returns (Some (OtherError ''marshal''), t')
        \<and> GetData (outputByteStream t') = [])
   \<and> (\<exists>t'. transport_write (\<lambda>s. (None, Write (replicate 65537 0) s)) (openTransport [])
           = Returns (Some PacketPayloadTooLargeError, t')
        \<and> GetData (outputByteStream t') = [])"
proof -
  let ?p = "\<lparr>InitialReadBufferSize = 4096, MaxPacketPayloadSize = 65536, validateOnce = True\<rparr>"
  let ?out1 = "snd (WriteDirectly packetHeaderSize (\<lambda>buffer. (buffer, None))
                      (outputByteStream (openTransport [])))"
  let ?cb1 = "\<lambda>s. (Some (OtherError ''marshal''), Write [1, 2, 3] s)"
  let ?cb2 = "\<lambda>s. (None :: error option, Write (replicate 65537 (0 :: byte)) s)"
  have h1: "\<not> isClosed (openTransport [])"
    by (simp add: isClosed_def openTransport_def)
  have h2: "policy (openTransport []) = Some ?p"
    by (simp add: openTransport_def)
  have o: "GetData (outputByteStream (openTransport [])) = []"
    by (simp add: openTransport_def emptyByteStream_def GetData_def)
  have a1: "?cb1 ?out1 = (Some (OtherError ''marshal''), Write [1, 2, 3] ?out1)"
    by simp
  have a2: "GetData (Write [1, 2, 3] ?out1) = GetData ?out1 @ [1, 2, 3]"
    by (rule GetData_Write)
  have a3: "Some (OtherError ''marshal'') \<noteq> None
            \<or> int (length [1, 2, 3 :: byte]) > sint (MaxPacketPayloadSize ?p)"
    by simp
  have b1: "?cb2 ?out1 = (None, Write (replicate 65537 0) ?out1)"
    by simp
  have b2: "GetData (Write (replicate 65537 0) ?out1) = GetData ?out1 @ replicate 65537 0"
    by (rule GetData_Write)
  have b3: "(None :: error option) \<noteq> None
            \<or> int (length (replicate 65537 (0 :: byte))) > sint (MaxPacketPayloadSize ?p)"
    by simp
  from write_atomic_on_failure [where callback = ?cb1, OF h1 h2 a1 a2 a3]
    write_atomic_on_failure [where callback = ?cb2, OF h1 h2 b1 b2 b3]
  show ?thesis
    by (auto simp: o)
qed

text \<open>
  C6. Closing an open transport returns what the connection's \<open>Close\<close> returns and leaves
  the transport closed; from then on \<open>close\<close> (forced or not), \<open>peek\<close>, \<open>peekInBatch\<close>,
  \<open>skip\<close>, \<open>skipInBatch\<close>, \<open>write\<close> and \<open>flush\<close> return \<open>TransportClosedError\<close> and
  leave the transport as it is.
\<close>

theorem close_idempotent:
  assumes op: "\<not> isClosed t" and conn: "connection t = Some c"
  shows "\<exists>t'. close force t = Returns (connCloseResult c, t')
           \<and> isClosed t'
           \<and> (\<forall>force2. close force2 t' = Returns (Some TransportClosedError, t'))
           \<and> peek makeDeadline ctx timeout t' = Returns (([], Some TransportClosedError), t')
           \<and> peekInBatch makeDeadline ctx timeout t' =
               Returns (([], Some TransportClosedError), t')
           \<and> skip packetPayload t' = (Some TransportClosedError, t')
           \<and> skipInBatch packetPayloads t' = (Some TransportClosedError, t')
           \<and> transport_write callback t' = Returns (Some TransportClosedError, t')
           \<and> flush makeDeadline maxWS ctx timeout t' =
               Some (Returns (Some TransportClosedError, t'))"
  using op conn
  by (simp add: close_def conn_Close_def isClosed_def peek_def peekInBatch_def doPeek_def
      skip_def skipInBatch_def transport_write_def flush_def Let_def)


theorem close_idempotent_witness:
  "\<exists>t'. close True (openTransport []) = Returns (None, t')
        \<and> isClosed t'
        \<and> close False t' = Returns (Some TransportClosedError, t')
        \<and> peek noDeadline background 0 t' = Returns (([], Some TransportClosedError), t')"
proof -
  have h1: "\<not> isClosed (openTransport [])"
    by (simp add: isClosed_def openTransport_def)
  have h2: "connection (openTransport []) = Some idleConnection"
    by (simp add: openTransport_def)
  from close_idempotent [OF h1 h2, where force = True and makeDeadline = noDeadline
      and ctx = background and timeout = 0 and packetPayload = "[]" and packetPayloads = "[]"
      and callback = "\<lambda>s. (None, s)" and maxWS = 1]
  show ?thesis
    by (auto simp: idleConnection_def)
qed


section \<open>Batched peek\<close>

declare readLoop.simps [simp del] peekInBatchLoop.simps [simp del] bufferedPackets.simps [simp del]

lemma readLoop_Inr:
  "readLoop target c s = (Inr u, c', s') \<Longrightarrow>
   target \<le> GetDataSize s' \<and> (\<exists>more. GetData s' = GetData s @ more)"
proof (induction target c s rule: readLoop.induct)
  case (1 target c s)
  obtain dataSize e buffer c1 where r: "conn_Read c (GetBuffer s) = (dataSize, e, buffer, c1)"
    by (cases "conn_Read c (GetBuffer s)") auto
  let ?s1 = "s\<lparr>bsBuffer := buffer\<rparr>"
  let ?s2 = "CommitBuffer dataSize ?s1"
  have d2: "GetData ?s2 = GetData s @ take dataSize buffer"
    by (simp add: GetData_def CommitBuffer_def)
  from "1.prems" r have nz: "dataSize \<noteq> 0"
    by (subst (asm) readLoop.simps) (auto simp: Let_def split: if_splits)
  show ?case
  proof (cases "target \<le> GetDataSize ?s2")
    case True
    with "1.prems" r nz have "s' = (if GetBufferSize ?s2 = 0 then ReserveBuffer 1 ?s2 else ?s2)"
      by (subst (asm) readLoop.simps) (simp add: Let_def)
    then have "GetData s' = GetData ?s2"
      by (simp add: GetData_def ReserveBuffer_def)
    with True d2 show ?thesis by (simp add: GetDataSize_def GetData_def)
  next
    case False
    with "1.prems" r nz have rec: "readLoop target c1 ?s2 = (Inr u, c', s')"
      by (subst (asm) readLoop.simps) (simp add: Let_def)
    from "1.IH" [OF r [symmetric] refl refl refl nz refl False rec] d2
    show ?thesis by auto
  qed
qed

lemma readInto_Inr:
  "readInto target t = Returns (Inr u, t') \<Longrightarrow>
   policy t' = policy t \<and> target \<le> GetDataSize (inputByteStream t')
   \<and> (\<exists>more. GetData (inputByteStream t') = GetData (inputByteStream t) @ more)"
  by (auto simp: readInto_def split: option.splits prod.splits dest: readLoop_Inr)

lemma armReadDeadline_keeps:
  "armReadDeadline makeDeadline ctx timeout t = Returns (e, t') \<Longrightarrow>
   policy t' = policy t \<and> inputByteStream t' = inputByteStream t"
  by (auto simp: armReadDeadline_def split: option.splits prod.splits if_splits)

lemma doPeekHeader_Inr:
  "doPeekHeader makeDeadline ctx timeout t = Returns (Inr b, t1) \<Longrightarrow>
   policy t1 = policy t \<and> 4 \<le> GetDataSize (inputByteStream t1)"
  by (auto simp: doPeekHeader_def packetHeaderSize_def
      split: if_splits outcome.splits prod.splits option.splits sum.splits
      dest!: armReadDeadline_keeps readInto_Inr)


lemma tryPeek_front:
  assumes pol: "policy t' = Some p"
    and w: "BigEndian_Uint32 (take 4 (GetData (inputByteStream t'))) = Returns w"
    and fit: "\<not> uint w > sint (MaxPacketPayloadSize p)"
    and len: "4 + uint w \<le> int (GetDataSize (inputByteStream t'))"
  shows "tryPeek 0 t' = Returns (take (nat (4 + uint w)) (GetData (inputByteStream t')), True)"
proof -
  have "0 \<le> uint w" by simp
  with len have "\<not> int (GetDataSize (inputByteStream t')) < 4" by linarith
  with assms show ?thesis
    by (simp add: tryPeek_def packetHeaderSize_def Let_def)
qed

lemma doPeekBody_packet:
  assumes body: "doPeekBody makeDeadline ctx timeout b t1 = Returns ((packet, None), t')"
    and hdr: "4 \<le> GetDataSize (inputByteStream t1)"
    and pk: "4 \<le> length packet"
  shows "tryPeek 0 t' = Returns (packet, True) \<and> policy t' = policy t1"
proof -
  let ?d1 = "GetData (inputByteStream t1)"
  from body obtain w where w: "BigEndian_Uint32 (take 4 ?d1) = Returns w"
    by (auto simp: doPeekBody_def packetHeaderSize_def split: outcome.splits)
  from body w obtain p where pol: "policy t1 = Some p"
    by (auto simp: doPeekBody_def packetHeaderSize_def Let_def split: option.splits)
  from body w pol pk have fit: "\<not> uint w > sint (MaxPacketPayloadSize p)"
    by (auto simp: doPeekBody_def packetHeaderSize_def Let_def split: if_splits)
  let ?packetSize = "4 + uint w"
  let ?bufferSize = "?packetSize - int (GetDataSize (inputByteStream t1))"
  show ?thesis
  proof (cases "?bufferSize \<ge> 1")
    case False
    with body w pol fit have "t' = t1" and "packet = take (nat ?packetSize) ?d1"
      by (auto simp: doPeekBody_def packetHeaderSize_def Let_def)
    moreover from False have "?packetSize \<le> int (GetDataSize (inputByteStream t1))" by simp
    ultimately show ?thesis
      using tryPeek_front [OF pol w fit] by simp
  next
    case True
    let ?arm = "if b then Returns (None, t1) else armReadDeadline makeDeadline ctx timeout t1"
    from body w pol fit True obtain e1 self1 where arm: "?arm = Returns (e1, self1)"
      by (cases ?arm) (auto simp: doPeekBody_def packetHeaderSize_def Let_def)
    from arm have keep: "policy self1 = policy t1" "inputByteStream self1 = inputByteStream t1"
      by (auto split: if_splits dest: armReadDeadline_keeps)
    from body w pol fit True arm pk have e1: "e1 = None"
      by (cases e1) (auto simp: doPeekBody_def packetHeaderSize_def Let_def)
    let ?self1 = "self1\<lparr>inputByteStream := ReserveBuffer ?bufferSize (inputByteStream self1)\<rparr>"
    from body w pol fit True arm e1 pk obtain u
      where rd: "readInto (nat ?packetSize) ?self1 = Returns (Inr u, t')"
        and pkt: "packet = take (nat ?packetSize) (GetData (inputByteStream t'))"
      by (cases "readInto (nat ?packetSize) ?self1")
        (auto simp: doPeekBody_def packetHeaderSize_def Let_def split: sum.splits)
    from readInto_Inr [OF rd] obtain more
      where pol': "policy t' = policy ?self1"
        and sz: "nat ?packetSize \<le> GetDataSize (inputByteStream t')"
        and app: "GetData (inputByteStream t') = GetData (inputByteStream ?self1) @ more"
      by blast
    have "GetData (inputByteStream ?self1) = ?d1"
      using keep by (simp add: GetData_def ReserveBuffer_def)
    with app hdr have "take 4 (GetData (inputByteStream t')) = take 4 ?d1"
      by (simp add: GetDataSize_def GetData_def)
    with w have w': "BigEndian_Uint32 (take 4 (GetData (inputByteStream t'))) = Returns w"
      by simp
    from pol' keep pol have p': "policy t' = Some p" by simp
    from sz have "?packetSize \<le> int (GetDataSize (inputByteStream t'))" by simp
    from tryPeek_front [OF p' w' fit this] pkt p' pol show ?thesis by simp
  qed
qed

lemma doPeekHeader_Inl:
  "doPeekHeader makeDeadline ctx timeout t = Returns (Inl (packet, e), t1) \<Longrightarrow> packet = []"
  by (auto simp: doPeekHeader_def
      split: if_splits outcome.splits prod.splits option.splits sum.splits)

lemma doPeek_packet:
  assumes "doPeek makeDeadline ctx timeout t = Returns ((packet, None), t')"
    and "4 \<le> length packet"
  shows "tryPeek 0 t' = Returns (packet, True) \<and> policy t' = policy t"
proof -
  from assms obtain b t1
    where h: "doPeekHeader makeDeadline ctx timeout t = Returns (Inr b, t1)"
      and bd: "doPeekBody makeDeadline ctx timeout b t1 = Returns ((packet, None), t')"
    by (auto simp: doPeek_def split: if_splits outcome.splits sum.splits prod.splits
        dest: doPeekHeader_Inl)
  from doPeekHeader_Inr [OF h] doPeekBody_packet [OF bd _ assms(2)]
  show ?thesis by simp
qed

lemma tryPeek_True:
  assumes "tryPeek off self = Returns (packet, True)" and "policy self = Some p"
  shows "4 \<le> length packet
       \<and> bufferedPackets (sint (MaxPacketPayloadSize p)) (drop off (GetData (inputByteStream self))) =
           drop 4 packet #
           bufferedPackets (sint (MaxPacketPayloadSize p))
             (drop (off + length packet) (GetData (inputByteStream self)))"
proof -
  let ?d = "drop off (GetData (inputByteStream self))"
  from assms have len: "4 \<le> length ?d"
    by (auto simp: tryPeek_def packetHeaderSize_def GetDataSize_def GetData_def split: if_splits)
  then have l4: "length (take 4 ?d) = 4" by simp
  then obtain w where w: "BigEndian_Uint32 (take 4 ?d) = Returns w"
    using Uint32_returns by blast
  have u: "uint w = int (bigEndianValue (take 4 ?d))"
    using l4 w by (rule Uint32_header_value)
  let ?n = "bigEndianValue (take 4 ?d)"
  from assms len w u have ok: "\<not> int ?n > sint (MaxPacketPayloadSize p)"
    "\<not> length ?d < 4 + ?n" and pk: "packet = take (4 + ?n) ?d"
    by (auto simp: tryPeek_def packetHeaderSize_def GetDataSize_def GetData_def Let_def
        nat_add_distrib split: if_splits)
  have lp: "length packet = 4 + ?n" using pk ok by simp
  have d1: "drop 4 packet = take ?n (drop 4 ?d)" using pk by (simp add: drop_take)
  have d2: "drop (off + length packet) (GetData (inputByteStream self)) = drop (4 + ?n) ?d"
    using lp by (simp add: add.commute)
  show ?thesis
    using len ok lp d1 d2
    by (subst bufferedPackets.simps) (simp add: Let_def)
qed

lemma tryPeek_False:
  assumes "tryPeek off self = Returns (packet, False)" and "policy self = Some p"
  shows "bufferedPackets (sint (MaxPacketPayloadSize p)) (drop off (GetData (inputByteStream self))) = []"
proof (cases "length (drop off (GetData (inputByteStream self))) < 4")
  case True
  then show ?thesis by (subst bufferedPackets.simps) simp
next
  case False
  let ?d = "drop off (GetData (inputByteStream self))"
  from False have l4: "length (take 4 ?d) = 4" by simp
  then obtain w where w: "BigEndian_Uint32 (take 4 ?d) = Returns w"
    using Uint32_returns by blast
  have u: "uint w = int (bigEndianValue (take 4 ?d))"
    using l4 w by (rule Uint32_header_value)
  let ?n = "bigEndianValue (take 4 ?d)"
  from assms False w u have "int ?n > sint (MaxPacketPayloadSize p) \<or> length ?d < 4 + ?n"
    by (auto simp: tryPeek_def packetHeaderSize_def GetDataSize_def GetData_def Let_def
        split: if_splits)
  then show ?thesis
    by (subst bufferedPackets.simps) (auto simp: Let_def)
qed

lemma peekInBatchLoop_buffered:
  "peekInBatchLoop self off acc = Returns ps \<Longrightarrow> policy self = Some p \<Longrightarrow>
   ps = acc @ bufferedPackets (sint (MaxPacketPayloadSize p))
              (drop off (GetData (inputByteStream self)))"
proof (induction self off acc rule: peekInBatchLoop.induct)
  case (1 self dataOffset packetPayloads)
  from "1.prems"(1) obtain packet ok where tp: "tryPeek dataOffset self = Returns (packet, ok)"
    by (subst (asm) peekInBatchLoop.simps) (auto split: outcome.splits)
  show ?case
  proof (cases ok)
    case False
    with tp "1.prems" show ?thesis
      using tryPeek_False [of dataOffset self packet p]
      by (subst (asm) peekInBatchLoop.simps) simp
  next
    case True
    with tp have tpT: "tryPeek dataOffset self = Returns (packet, True)" by simp
    from tryPeek_True [OF tpT "1.prems"(2)]
    have l: "4 \<le> length packet"
      and b: "bufferedPackets (sint (MaxPacketPayloadSize p))
                (drop dataOffset (GetData (inputByteStream self))) =
              drop 4 packet # bufferedPackets (sint (MaxPacketPayloadSize p))
                (drop (dataOffset + length packet) (GetData (inputByteStream self)))"
      by simp_all
    from l have pp: "packetPayloadOf packet = Returns (drop 4 packet)"
      by (simp add: packetPayloadOf_def packetHeaderSize_def)
    from "1.prems"(1) tpT pp
    have rec: "peekInBatchLoop self (dataOffset + length packet)
                 (packetPayloads @ [drop 4 packet]) = Returns ps"
      by (subst (asm) peekInBatchLoop.simps) simp
    have "ps = (packetPayloads @ [drop 4 packet]) @
               bufferedPackets (sint (MaxPacketPayloadSize p))
                 (drop (dataOffset + length packet) (GetData (inputByteStream self)))"
      using "1.IH" tpT pp rec "1.prems"(2) by simp
    with b show ?thesis by simp
  qed
qed


lemma peekInBatch_reading:
  "peekInBatch noDeadline background 0
     (receiving [ReadResult [0, 0, 0, 1, 7, 0, 0, 0, 2, 8, 9, 0, 0] None, ReadResult [0, 1, 5] None]) =
   Returns (([[7], [8, 9]], None),
     (receiving [ReadResult [0, 1, 5] None])
       \<lparr>connection := Some (idleConnection\<lparr>connInput := [ReadResult [0, 1, 5] None],
                                              connReadDeadline := Some 0\<rparr>),
        inputByteStream := \<lparr>bsData = [0, 0, 0, 1, 7, 0, 0, 0, 2, 8, 9, 0, 0],
                            bsBuffer = replicate 3 0\<rparr>\<rparr>)"
  by (simp add: peekInBatch_def doPeek_def doPeekHeader_def doPeekBody_def isClosed_def
      receiving_def idleConnection_def noDeadline_def armReadDeadline_def readInto_def
      readLoop.simps conn_Read_def conn_SetReadDeadline_def CommitBuffer_def GetBuffer_def
      GetBufferSize_def ReserveBuffer_def
      GetDataSize_def GetData_def packetHeaderSize_def BigEndian_Uint32_def
      packetPayloadOf_def peekInBatchLoop.simps tryPeek_def Let_def)


text \<open>
  C5. When \<open>peekInBatch\<close> succeeds, the transport is left exactly as the one \<open>doPeek\<close>
  that it starts with leaves it (the loop that follows reads nothing from the connection),
  the first payload returned is the payload of the packet that \<open>doPeek\<close> returned, and the
  list returned is the list of the payloads of all complete packets in the input buffer,
  in buffer order.
\<close>

theorem peekInBatch_returns_buffered_packets:
  assumes "peekInBatch makeDeadline ctx timeout t = Returns ((packetPayloads, None), t')"
  shows "\<exists>p packet.
           policy t' = Some p
         \<and> doPeek makeDeadline ctx timeout t = Returns ((packet, None), t')
         \<and> hd packetPayloads = drop packetHeaderSize packet
         \<and> packetPayloads =
             bufferedPackets (sint (MaxPacketPayloadSize p)) (GetData (inputByteStream t'))"
proof -
  from assms obtain packet
    where dp: "doPeek makeDeadline ctx timeout t = Returns ((packet, None), t')"
      and pp: "packetPayloadOf packet = Returns (drop 4 packet)"
      and len: "4 \<le> length packet"
      and lp: "peekInBatchLoop t' (length packet) [drop 4 packet] = Returns packetPayloads"
    by (auto simp: peekInBatch_def packetPayloadOf_def packetHeaderSize_def
        split: outcome.splits prod.splits if_splits)
  from doPeek_packet [OF dp len] have tp: "tryPeek 0 t' = Returns (packet, True)" by simp
  then obtain p where pol: "policy t' = Some p"
    by (cases "policy t'")
      (auto simp: tryPeek_def Let_def split: if_splits outcome.splits)
  from tryPeek_True [OF tp pol] peekInBatchLoop_buffered [OF lp pol]
  have "packetPayloads =
          bufferedPackets (sint (MaxPacketPayloadSize p)) (GetData (inputByteStream t'))"
    by simp
  moreover from peekInBatchLoop_buffered [OF lp pol]
  have "hd packetPayloads = drop packetHeaderSize packet"
    by (simp add: packetHeaderSize_def)
  ultimately show ?thesis using pol dp by blast
qed


theorem peekInBatch_returns_buffered_packets_witness:
  "peekInBatch noDeadline background 0
     (receiving [ReadResult [0, 0, 0, 1, 7, 0, 0, 0, 2, 8, 9, 0, 0] None, ReadResult [0, 1, 5] None]) =
   Returns (([[7], [8, 9]], None),
     (receiving [ReadResult [0, 1, 5] None])
       \<lparr>connection := Some (idleConnection\<lparr>connInput := [ReadResult [0, 1, 5] None],
                                              connReadDeadline := Some 0\<rparr>),
        inputByteStream := \<lparr>bsData = [0, 0, 0, 1, 7, 0, 0, 0, 2, 8, 9, 0, 0],
                            bsBuffer = replicate 3 0\<rparr>\<rparr>)
   \<and> bufferedPackets 65536 [0, 0, 0, 1, 7, 0, 0, 0, 2, 8, 9, 0, 0] = [[7], [8, 9]]"
  using peekInBatch_returns_buffered_packets [OF peekInBatch_reading] peekInBatch_reading
  by (auto simp: receiving_def GetData_def)

section \<open>The dialing loop\<close>

lemma stop_after_dialed:
  "s\<lparr>stop := b, dialed := d\<rparr> = s\<lparr>dialed := d, stop := b\<rparr>"
  "s\<lparr>stop := b, poolResets := n\<rparr> = s\<lparr>poolResets := n, stop := b\<rparr>"
  by simp_all

text \<open>
  C3. In \<open>ClientChannel.Run\<close> on a channel that is not closed, a round whose connect
  fails, or whose dispatch returns an error, is followed by the next round exactly when the
  error is \<open>io.EOF\<close> or a \<open>*net.OpError\<close>: then \<open>Run\<close> behaves as it does on the rounds
  that remain. With any other error \<open>Run\<close> ends at once: it closes the channel, clears
  \<open>stop\<close>, releases the address pool and returns that error.
\<close>

theorem Run_retry_classification:
  assumes "\<not> implIsClosed self"
  shows "ClientChannel_Run ctx self (ConnectFailed serverAddress e # rest) =
           (if e = EOF \<or> (\<exists>s. e = OpError s)
            then ClientChannel_Run ctx (self\<lparr>dialed := dialed self @ [serverAddress]\<rparr>) rest
            else Some (Some e, self\<lparr>dialed := dialed self @ [serverAddress],
                                    implIsClosed := True, stop := False, poolReleased := True\<rparr>))
       \<and> ClientChannel_Run ctx self (Connected serverAddress (Some e) # rest) =
           (if e = EOF \<or> (\<exists>s. e = OpError s)
            then ClientChannel_Run ctx (self\<lparr>dialed := dialed self @ [serverAddress],
                                            poolResets := poolResets self + 1\<rparr>) rest
            else Some (Some e, self\<lparr>dialed := dialed self @ [serverAddress],
                                    poolResets := poolResets self + 1,
                                    implIsClosed := True, stop := False, poolReleased := True\<rparr>))"
  using assms
  by (cases e) (simp_all add: ClientChannel_Run_def Let_def stop_after_dialed)

theorem Run_retry_classification_witness:
  "\<not> implIsClosed freshClientChannel
   \<and> ClientChannel_Run background freshClientChannel
       [ConnectFailed ''a:1'' EOF, Connected ''b:1'' (Some (OpError ''read'')),
        ConnectFailed ''c:1'' (OtherError ''handshake rejected''), ConnectFailed ''d:1'' EOF] =
     Some (Some (OtherError ''handshake rejected''),
           \<lparr>implIsClosed = True, stop = False, dialed = [''a:1'', ''b:1'', ''c:1''],
            poolResets = 1, poolReleased = True\<rparr>)"
  using Run_retry_classification [of freshClientChannel background "''a:1''" EOF
      "[Connected ''b:1'' (Some (OpError ''read'')),
        ConnectFailed ''c:1'' (OtherError ''handshake rejected''), ConnectFailed ''d:1'' EOF]"]
  by (simp add: freshClientChannel_def ClientChannel_Run_def)

section \<open>Span allocation\<close>

text \<open>
  C4. \<open>makeContextVars\<close> for a root call (\<open>tryInheritSpan\<close> false, or a context that binds
  no \<open>ContextVars\<close>), when the generator yields a trace id: the new value has that trace id,
  \<open>SpanID = 1\<close>, \<open>SpanParentID = 0\<close>, and its counter is its own buffer, set to 2. For a child
  call (\<open>tryInheritSpan\<close> true, a context that binds a parent whose counter is in the store):
  the new value has the parent's trace id, \<open>SpanParentID\<close> is the parent's \<open>SpanID\<close>,
  \<open>SpanID\<close> is the value of the shared counter, the new value points to the same counter,
  and the counter is one more than it was.
\<close>

theorem makeContextVars_span_allocation:
  "((\<not> tryInheritSpan \<or> (\<exists>c. ctx = Some c \<and> ctxVars c = None)) \<longrightarrow>
      (\<exists>contextVars.
         makeContextVars (traceID, None) heap sub serviceName methodName methodIndex fifoKey
           extraData tryInheritSpan ctx = Returns (Inr (length heap), heap @ [contextVars])
       \<and> TraceID contextVars = traceID \<and> SpanID contextVars = 1 \<and> SpanParentID contextVars = 0
       \<and> nextSpanID contextVars = Some (length heap) \<and> bufferOfNextSpanID contextVars = 2))
   \<and> (tryInheritSpan \<and> ctx = Some c \<and> ctxVars c = Some parent \<and> parent < length heap
        \<and> nextSpanID (heap ! parent) = Some counter \<and> counter < length heap \<longrightarrow>
      (\<exists>contextVars.
         makeContextVars generated heap sub serviceName methodName methodIndex fifoKey
           extraData tryInheritSpan ctx =
           Returns (Inr (length heap),
                    heap[counter := (heap ! counter)
                           \<lparr>bufferOfNextSpanID := bufferOfNextSpanID (heap ! counter) + 1\<rparr>]
                    @ [contextVars])
       \<and> TraceID contextVars = TraceID (heap ! parent)
       \<and> SpanParentID contextVars = SpanID (heap ! parent)
       \<and> SpanID contextVars = bufferOfNextSpanID (heap ! counter)
       \<and> nextSpanID contextVars = Some counter))"
  by (auto simp: makeContextVars_def GetContextVars_def Let_def)

theorem makeContextVars_span_allocation_witness:
  "makeContextVars (replicate 16 7, None) [] 0 ''svc'' ''first'' 0 [] Map.empty False None =
     Returns (Inr 0, [sampleRoot])
   \<and> (\<exists>contextVars.
         makeContextVars (replicate 16 9, None) [sampleRoot] 0 ''svc'' ''second'' 1 [] Map.empty
           True (Some \<lparr>ctxVars = Some 0, ctxErr = None\<rparr>) =
           Returns (Inr 1, [sampleRoot\<lparr>bufferOfNextSpanID := 3\<rparr>, contextVars])
       \<and> TraceID contextVars = replicate 16 7 \<and> SpanParentID contextVars = 1
       \<and> SpanID contextVars = 2 \<and> nextSpanID contextVars = Some 0)"
  using makeContextVars_span_allocation [where tryInheritSpan = False and ctx = None
      and traceID = "replicate 16 7" and heap = "[]" and sub = 0 and serviceName = "''svc''"
      and methodName = "''first''" and methodIndex = 0 and fifoKey = "[]"
      and extraData = Map.empty]
    makeContextVars_span_allocation [where tryInheritSpan = True
      and ctx = "Some \<lparr>ctxVars = Some 0, ctxErr = None\<rparr>"
      and c = "\<lparr>ctxVars = Some 0, ctxErr = None\<rparr>" and parent = 0 and counter = 0
      and generated = "(replicate 16 9, None)" and heap = "[sampleRoot]" and sub = 0
      and serviceName = "''svc''" and methodName = "''second''" and methodIndex = 1
      and fifoKey = "[]" and extraData = Map.empty]
  by (auto simp: sampleRoot_def makeContextVars_def Let_def)

section \<open>The interceptor chain and the call\<close>

lemma runInterception_returns:
  assumes h: "\<And>ctx request st. idx st \<le> n \<Longrightarrow> n - idx st \<le> depth \<Longrightarrow>
                \<exists>r st'. h ctx request st = Some (r, st') \<and> idx st \<le> idx st' \<and> idx st' \<le> n"
  shows "idx st \<le> n \<Longrightarrow> n - idx st \<le> depth \<Longrightarrow>
         \<exists>r st'. runInterception h a st = Some (r, st') \<and> idx st \<le> idx st' \<and> idx st' \<le> n"
proof (induction a arbitrary: st)
  case (Done r)
  then show ?case by simp
next
  case (Next ctx request k)
  from h [OF Next.prems, of ctx request] obtain r st1
    where s: "h ctx request st = Some (r, st1)" and m: "idx st \<le> idx st1" "idx st1 \<le> n"
    by blast
  show ?case
  proof (cases r)
    case (Panics msg)
    with s m show ?thesis by simp
  next
    case (Returns res)
    from m Next.prems have "n - idx st1 \<le> depth" by simp
    with Next.IH [of "k res" st1] m(2) obtain r2 st2
      where "runInterception h (k res) st1 = Some (r2, st2)" "idx st1 \<le> idx st2" "idx st2 \<le> n"
      by auto
    with s Returns m show ?thesis by simp
  qed
qed

lemma outgoingMethodHandler_returns:
  "idx st \<le> length outgoingInterceptors \<Longrightarrow> length outgoingInterceptors - idx st \<le> depth \<Longrightarrow>
   \<exists>r st'. outgoingMethodHandler depth outgoingInterceptors doCall ctx request st = Some (r, st')
     \<and> idx st \<le> idx st' \<and> idx st' \<le> length outgoingInterceptors"
proof (induction depth arbitrary: ctx request st)
  case 0
  then show ?case by simp
next
  case (Suc depth)
  show ?case
  proof (cases "idx st = length outgoingInterceptors")
    case True
    then show ?thesis by simp
  next
    case False
    with Suc.prems have lt: "idx st < length outgoingInterceptors" by simp
    let ?st = "st\<lparr>idx := idx st + 1, invoked := invoked st @ [idx st]\<rparr>"
    have a: "idx ?st \<le> length outgoingInterceptors" using lt by simp
    have b: "length outgoingInterceptors - idx ?st \<le> depth" using Suc.prems by simp
    from runInterception_returns [where h = "outgoingMethodHandler depth outgoingInterceptors doCall"
        and n = "length outgoingInterceptors" and depth = depth, OF Suc.IH a b]
    obtain r st' where
      "runInterception (outgoingMethodHandler depth outgoingInterceptors doCall)
         ((outgoingInterceptors ! idx st) ctx request) ?st = Some (r, st')"
      "idx ?st \<le> idx st'" "idx st' \<le> length outgoingInterceptors"
      by blast
    with False lt show ?thesis by simp
  qed
qed

lemma callMethod_returns:
  "\<exists>r st. callMethod outgoingInterceptors doCall ctx contextVars request = Some (r, st)"
proof (cases "bindContextVars ctx contextVars")
  case (Panics m)
  then show ?thesis by (simp add: callMethod_def Let_def)
next
  case (Returns ctx1)
  from outgoingMethodHandler_returns [of initialCallState outgoingInterceptors
      "length outgoingInterceptors" doCall ctx1 request]
  obtain r st' where "outgoingMethodHandler (length outgoingInterceptors) outgoingInterceptors
                        doCall ctx1 request initialCallState = Some (r, st')"
    by (auto simp: initialCallState_def)
  with Returns show ?thesis by (simp add: callMethod_def Let_def)
qed

lemma callMethodWithoutReturn_returns:
  "\<exists>r st. callMethodWithoutReturn outgoingInterceptors doCall ctx contextVars request = Some (r, st)"
  using callMethod_returns [of outgoingInterceptors "\<lambda>ctx1 request1. (None, doCall ctx1 request1)"
      ctx contextVars request]
  by (auto simp: callMethodWithoutReturn_def split: outcome.splits prod.splits)






declare decimal.simps [simp del]






text \<open>
  C8. When \<open>impl.callMethod\<close> has accepted the call and the \<open>select\<close> of \<open>doCallMethod\<close>
  takes the case of the done context before the callback has delivered anything, the result
  is the nil response with the very error that the context's \<open>Err()\<close> returns; and with no
  interceptors registered this is what \<open>callMethod\<close> returns.
\<close>

theorem doCallMethod_context_done:
  assumes "implCallMethod (ctx\<lparr>ctxVars := Some contextVars\<rparr>) contextVars request responseType
             autoRetryMethodCall = None"
    and "ctxErr ctx = Some e"
  shows "doCallMethod implCallMethod ContextDone contextVars responseType autoRetryMethodCall
           (ctx\<lparr>ctxVars := Some contextVars\<rparr>) request = (None, Some e)
       \<and> (\<exists>st. callMethod []
                   (doCallMethod implCallMethod ContextDone contextVars responseType
                      autoRetryMethodCall)
                   (Some ctx) contextVars request = Some (Returns (None, Some e), st))"
  using assms
  by (simp add: doCallMethod_def callMethod_def bindContextVars_def)


theorem doCallMethod_context_done_witness:
  "doCallMethod acceptingImpl ContextDone 0 ''Reply'' False (canceled\<lparr>ctxVars := Some 0\<rparr>) [1] =
     (None, Some (ContextErr ''context canceled''))
   \<and> (\<exists>st. callMethod [] (doCallMethod acceptingImpl ContextDone 0 ''Reply'' False)
              (Some canceled) 0 [1] = Some (Returns (None, Some (ContextErr ''context canceled'')), st))"
proof -
  have h1: "acceptingImpl (canceled\<lparr>ctxVars := Some 0\<rparr>) 0 [1] ''Reply'' False = None"
    by (simp add: acceptingImpl_def)
  have h2: "ctxErr canceled = Some (ContextErr ''context canceled'')"
    by (simp add: canceled_def)
  from doCallMethod_context_done [where implCallMethod = acceptingImpl and ctx = canceled
      and contextVars = 0 and request = "[1]" and responseType = "''Reply''"
      and autoRetryMethodCall = False, OF h1 h2]
  show ?thesis .
qed

text \<open>
  C10. \<open>CallMethodWithoutReturn\<close>, on a client channel and on a server channel, in any
  context (one that binds parent \<open>ContextVars\<close> included), when the generator yields a trace
  id: the call is \<open>callMethodWithoutReturn\<close> on the interceptors of, and under the address
  of, a new \<open>ContextVars\<close> value, which is that of a root call (the generated trace id,
  \<open>SpanID = 1\<close>, \<open>SpanParentID = 0\<close>, a counter of its own set to 2) and is added to the
  store, the values that were there staying as they were; the call returns; and when no
  interceptor applies, \<open>impl.callMethod\<close> is called once, with the caller's context bound
  to the new value and with the address of the new value.
\<close>

theorem CallMethodWithoutReturn_starts_new_trace:
  "TraceID (rootContextVars sub serviceName methodName methodIndex fifoKey extraData traceID
              (length heap)) = traceID
   \<and> SpanID (rootContextVars sub serviceName methodName methodIndex fifoKey extraData traceID
                (length heap)) = 1
   \<and> SpanParentID (rootContextVars sub serviceName methodName methodIndex fifoKey extraData
                      traceID (length heap)) = 0
   \<and> nextSpanID (rootContextVars sub serviceName methodName methodIndex fifoKey extraData
                    traceID (length heap)) = Some (length heap)
   \<and> bufferOfNextSpanID (rootContextVars sub serviceName methodName methodIndex fifoKey
                            extraData traceID (length heap)) = 2
   \<and> ClientChannel_CallMethodWithoutReturn (traceID, None) implCallMethod heap sub channelPolicy ctx
     serviceName methodName methodIndex fifoKey extraData request responseType autoRetryMethodCall =
     map_option
       (\<lambda>(r, st). (r, heap @ [rootContextVars sub serviceName methodName methodIndex fifoKey
                                  extraData traceID (length heap)], st))
       (callMethodWithoutReturn
          (makeOutgoingMethodInterceptors channelPolicy
             (rootContextVars sub serviceName methodName methodIndex fifoKey extraData traceID
                (length heap)))
          (doCallMethodWithoutReturn implCallMethod (length heap) responseType autoRetryMethodCall)
          ctx (length heap) request)
   \<and> ServerChannel_CallMethodWithoutReturn (traceID, None) implCallMethod heap sub channelPolicy ctx
     serviceName methodName methodIndex fifoKey extraData request responseType autoRetryMethodCall =
     map_option
       (\<lambda>(r, st). (r, heap @ [rootContextVars sub serviceName methodName methodIndex fifoKey
                                  extraData traceID (length heap)], st))
       (callMethodWithoutReturn
          (makeOutgoingMethodInterceptors channelPolicy
             (rootContextVars sub serviceName methodName methodIndex fifoKey extraData traceID
                (length heap)))
          (doCallMethodWithoutReturn implCallMethod (length heap) responseType autoRetryMethodCall)
          ctx (length heap) request)
   \<and> (\<exists>r st.
        ClientChannel_CallMethodWithoutReturn (traceID, None) implCallMethod heap sub channelPolicy
          ctx serviceName methodName methodIndex fifoKey extraData request responseType
          autoRetryMethodCall =
          Some (r, heap @ [rootContextVars sub serviceName methodName methodIndex fifoKey
                             extraData traceID (length heap)], st))
   \<and> (\<exists>r st.
        ServerChannel_CallMethodWithoutReturn (traceID, None) implCallMethod heap sub channelPolicy
          ctx serviceName methodName methodIndex fifoKey extraData request responseType
          autoRetryMethodCall =
          Some (r, heap @ [rootContextVars sub serviceName methodName methodIndex fifoKey
                             extraData traceID (length heap)], st))
   \<and> (ctx = Some c
        \<and> makeOutgoingMethodInterceptors channelPolicy
              (rootContextVars sub serviceName methodName methodIndex fifoKey extraData traceID
                 (length heap)) = [] \<longrightarrow>
        ClientChannel_CallMethodWithoutReturn (traceID, None) implCallMethod heap sub channelPolicy
          ctx serviceName methodName methodIndex fifoKey extraData request responseType
          autoRetryMethodCall =
          Some (Returns (implCallMethod (c\<lparr>ctxVars := Some (length heap)\<rparr>) (length heap) request
                           responseType autoRetryMethodCall),
                heap @ [rootContextVars sub serviceName methodName methodIndex fifoKey
                          extraData traceID (length heap)],
                initialCallState\<lparr>poolPuts := 1,
                                  delivered := [(c\<lparr>ctxVars := Some (length heap)\<rparr>, request)]\<rparr>)
      \<and> ServerChannel_CallMethodWithoutReturn (traceID, None) implCallMethod heap sub channelPolicy
          ctx serviceName methodName methodIndex fifoKey extraData request responseType
          autoRetryMethodCall =
          Some (Returns (implCallMethod (c\<lparr>ctxVars := Some (length heap)\<rparr>) (length heap) request
                           responseType autoRetryMethodCall),
                heap @ [rootContextVars sub serviceName methodName methodIndex fifoKey
                          extraData traceID (length heap)],
                initialCallState\<lparr>poolPuts := 1,
                                  delivered := [(c\<lparr>ctxVars := Some (length heap)\<rparr>, request)]\<rparr>))"
proof -
  let ?cv = "rootContextVars sub serviceName methodName methodIndex fifoKey extraData traceID
               (length heap)"
  let ?call = "callMethodWithoutReturn (makeOutgoingMethodInterceptors channelPolicy ?cv)
       (doCallMethodWithoutReturn implCallMethod (length heap) responseType autoRetryMethodCall)
       ctx (length heap) request"
  have mk: "makeContextVars (traceID, None) heap sub serviceName methodName methodIndex fifoKey
              extraData False None = Returns (Inr (length heap), heap @ [?cv])"
    by (simp add: makeContextVars_def rootContextVars_def Let_def)
  have c: "ClientChannel_CallMethodWithoutReturn (traceID, None) implCallMethod heap sub channelPolicy
             ctx serviceName methodName methodIndex fifoKey extraData request responseType
             autoRetryMethodCall = map_option (\<lambda>(r, st). (r, heap @ [?cv], st)) ?call"
    unfolding ClientChannel_CallMethodWithoutReturn_def mk
    by (simp split: option.splits)
  have s: "ServerChannel_CallMethodWithoutReturn (traceID, None) implCallMethod heap sub channelPolicy
             ctx serviceName methodName methodIndex fifoKey extraData request responseType
             autoRetryMethodCall = map_option (\<lambda>(r, st). (r, heap @ [?cv], st)) ?call"
    unfolding ServerChannel_CallMethodWithoutReturn_def mk
    by (simp split: option.splits)
  obtain r st where cm: "?call = Some (r, st)"
    using callMethodWithoutReturn_returns by blast
  have direct: "?call = Some (Returns (implCallMethod (c\<lparr>ctxVars := Some (length heap)\<rparr>)
                                          (length heap) request responseType autoRetryMethodCall),
                              initialCallState\<lparr>poolPuts := 1,
                                 delivered := [(c\<lparr>ctxVars := Some (length heap)\<rparr>, request)]\<rparr>)"
    if "ctx = Some c" "makeOutgoingMethodInterceptors channelPolicy ?cv = []"
    using that
    by (simp add: callMethodWithoutReturn_def callMethod_def bindContextVars_def
        doCallMethodWithoutReturn_def)
  have f: "TraceID ?cv = traceID" "SpanID ?cv = 1" "SpanParentID ?cv = 0"
    "nextSpanID ?cv = Some (length heap)" "bufferOfNextSpanID ?cv = 2"
    by (simp_all add: rootContextVars_def)
  show ?thesis
    unfolding c s f using cm direct by auto
qed

theorem CallMethodWithoutReturn_starts_new_trace_witness:
  "ClientChannel_CallMethodWithoutReturn (replicate 16 9, None) acceptingImpl [sampleRoot] 0
     emptyPolicy (Some \<lparr>ctxVars = Some 0, ctxErr = None\<rparr>)
     ''svc'' ''notify'' 2 [] Map.empty [1] ''Reply'' False =
     Some (Returns None,
           [sampleRoot, rootContextVars 0 ''svc'' ''notify'' 2 [] Map.empty (replicate 16 9) 1],
           initialCallState\<lparr>poolPuts := 1,
                             delivered := [(\<lparr>ctxVars = Some 1, ctxErr = None\<rparr>, [1])]\<rparr>)
   \<and> ServerChannel_CallMethodWithoutReturn (replicate 16 9, None) acceptingImpl [sampleRoot] 0
     emptyPolicy (Some \<lparr>ctxVars = Some 0, ctxErr = None\<rparr>)
     ''svc'' ''notify'' 2 [] Map.empty [1] ''Reply'' False =
     Some (Returns None,
           [sampleRoot, rootContextVars 0 ''svc'' ''notify'' 2 [] Map.empty (replicate 16 9) 1],
           initialCallState\<lparr>poolPuts := 1,
                             delivered := [(\<lparr>ctxVars = Some 1, ctxErr = None\<rparr>, [1])]\<rparr>)
   \<and> SpanID (rootContextVars 0 ''svc'' ''notify'' 2 [] Map.empty (replicate 16 9) 1) = 1
   \<and> SpanParentID (rootContextVars 0 ''svc'' ''notify'' 2 [] Map.empty (replicate 16 9) 1) = 0
   \<and> TraceID (rootContextVars 0 ''svc'' ''notify'' 2 [] Map.empty (replicate 16 9) 1) =
       replicate 16 9"
proof -
  let ?caller = "\<lparr>ctxVars = Some 0, ctxErr = None\<rparr>"
  let ?root = "rootContextVars 0 ''svc'' ''notify'' 2 [] Map.empty (replicate 16 9)
                 (length [sampleRoot])"
  let ?result = "Some (Returns (acceptingImpl (?caller\<lparr>ctxVars := Some (length [sampleRoot])\<rparr>)
                                  (length [sampleRoot]) [1] ''Reply'' False),
                       [sampleRoot] @ [?root],
                       initialCallState\<lparr>poolPuts := 1,
                          delivered := [(?caller\<lparr>ctxVars := Some (length [sampleRoot])\<rparr>, [1])]\<rparr>)"
  have h: "Some ?caller = Some ?caller
        \<and> makeOutgoingMethodInterceptors emptyPolicy ?root = []"
    by (simp add: makeOutgoingMethodInterceptors_def interceptorsAt_def emptyPolicy_def Let_def)
  note T = CallMethodWithoutReturn_starts_new_trace [where traceID = "replicate 16 9"
      and implCallMethod = acceptingImpl and heap = "[sampleRoot]" and sub = 0
      and channelPolicy = emptyPolicy and ctx = "Some ?caller" and c = ?caller
      and serviceName = "''svc''" and methodName = "''notify''" and methodIndex = 2
      and fifoKey = "[]" and extraData = Map.empty and request = "[1]"
      and responseType = "''Reply''" and autoRetryMethodCall = False]
  from T h have c: "ClientChannel_CallMethodWithoutReturn (replicate 16 9, None) acceptingImpl
     [sampleRoot] 0 emptyPolicy (Some ?caller) ''svc'' ''notify'' 2 [] Map.empty [1] ''Reply''
     False = ?result"
    by blast
  from T h have s: "ServerChannel_CallMethodWithoutReturn (replicate 16 9, None) acceptingImpl
     [sampleRoot] 0 emptyPolicy (Some ?caller) ''svc'' ''notify'' 2 [] Map.empty [1] ''Reply''
     False = ?result"
    by blast
  from T have f: "SpanID ?root = 1" "SpanParentID ?root = 0" "TraceID ?root = replicate 16 9"
    by blast+
  from c s f show ?thesis
    by (simp add: acceptingImpl_def)
qed






end
